theory Spec2Isabelle
  imports Main
begin

section \<open>The image processor's handler (src/image-processor/app.py)\<close>

text \<open>
  The repository is one function, \<open>lambda_handler(event, context)\<close>. It reads an S3
  notification event, filters on the object key's extension, fetches the object, makes a
  thumbnail with Pillow, uploads it and optionally publishes to SNS.

  The embedding is shallow. The event is a JSON value as \<open>json.loads\<close> delivers it; a
  Python exception is a value of \<open>exn\<close>; the handler returns what the caller sees
  (\<open>Inl e\<close>: the exception \<open>e\<close> reaches the caller, \<open>Inr r\<close>: the handler returns
  \<open>r\<close>) together with the list of calls it made to its collaborators (boto3's S3 and
  SNS clients, Pillow), in the order it made them. The collaborators are not code of the
  repository: they are the fields of a \<open>world\<close> record, functions from a call's
  arguments to its answer. \<open>print\<close> writes to the log only and is left out.
\<close>

subsection \<open>Values\<close>

text \<open>
  Strings are \<open>char list\<close>. A \<open>dict\<close> is an association list read with \<open>map_of\<close>.
\<close>

datatype json =
    JNull
  | JBool bool
  | JNum int
  | JStr string
  | JList "json list"
  | JDict "(string \<times> json) list"

text \<open>
  A raised exception, each with its \<open>str(e)\<close>. \<open>Error\<close> stands for every other
  subclass of \<open>Exception\<close> that a collaborator raises (botocore's \<open>ClientError\<close>,
  Pillow's \<open>UnidentifiedImageError\<close>, \<open>OSError\<close>, ...).
\<close>

datatype exn =
    KeyError string
  | IndexError string
  | TypeError string
  | AttributeError string
  | Error string

fun exn_str :: "exn \<Rightarrow> string" where
  "exn_str (KeyError m) = m"
| "exn_str (IndexError m) = m"
| "exn_str (TypeError m) = m"
| "exn_str (AttributeError m) = m"
| "exn_str (Error m) = m"

text \<open>
  \<open>repr\<close> of a string that holds no quote, backslash or control character: the string
  between single quotes. \<open>str(KeyError(k))\<close> is \<open>repr(k)\<close>.
\<close>

definition py_repr :: "string \<Rightarrow> string" where
  "py_repr s = CHR 0x27 # s @ [CHR 0x27]"

type_synonym bytes = "char list"

text \<open>
  A Pillow image object, as far as the handler looks at it: its \<open>format\<close> attribute
  (\<open>None\<close> for an image that was not read from a file), its mode, its size and its
  pixel data.
\<close>

record image =
  img_format :: "string option"
  img_mode :: string
  img_size :: "nat \<times> nat"
  img_data :: bytes

text \<open>The handler's return value; \<open>JsonDumps\<close> is \<open>json.dumps\<close> of a dict of strings.\<close>

datatype body = Text string | JsonDumps "(string \<times> string) list"

record result =
  statusCode :: nat
  body :: body

subsection \<open>Collaborators and the calls made to them\<close>

type_synonym env = "string \<rightharpoonup> string"

record world =
  s3_get_object :: "json \<Rightarrow> string \<Rightarrow> exn + bytes"
  s3_put_object :: "string \<Rightarrow> string \<Rightarrow> bytes \<Rightarrow> string \<Rightarrow> string \<Rightarrow> exn + unit"
  sns_publish :: "string \<Rightarrow> string \<Rightarrow> string \<Rightarrow> exn + unit"
  Image_open :: "bytes \<Rightarrow> exn + image"
  Image_thumbnail :: "nat \<times> nat \<Rightarrow> image \<Rightarrow> exn + image"
  Image_convert :: "string \<Rightarrow> image \<Rightarrow> exn + image"
  Image_save :: "image \<Rightarrow> string \<Rightarrow> bool \<Rightarrow> nat \<Rightarrow> exn + bytes"

text \<open>
  \<open>GetObject Bucket Key\<close> is \<open>s3.get_object\<close> with the read of its body;
  \<open>PutObject Bucket Key Body ContentType StorageClass\<close>;
  \<open>Publish TopicArn Subject Message\<close>;
  \<open>Save image format optimize quality\<close>.
\<close>

datatype call =
    GetObject json string
  | ImageOpen bytes
  | Thumbnail "nat \<times> nat" image
  | Convert string image
  | Save image string bool nat
  | PutObject string string bytes string string
  | Publish string string string

fun is_publish :: "call \<Rightarrow> bool" where
  "is_publish (Publish t s m) = True"
| "is_publish c = False"

fun is_put :: "call \<Rightarrow> bool" where
  "is_put (PutObject b k d c s) = True"
| "is_put c = False"

text \<open>
  A computation: the value or the exception it ends with, and the calls it made.
  \<open>call c r\<close> makes the call \<open>c\<close>, which answers \<open>r\<close>; the call is in the list
  whether it answers or raises.
\<close>

type_synonym 'a comp = "(exn + 'a) \<times> call list"

definition ret :: "'a \<Rightarrow> 'a comp" where
  "ret x = (Inr x, [])"

definition raise :: "exn \<Rightarrow> 'a comp" where
  "raise e = (Inl e, [])"

definition call :: "call \<Rightarrow> exn + 'a \<Rightarrow> 'a comp" where
  "call c r = (r, [c])"

definition and_then :: "'a comp \<Rightarrow> ('a \<Rightarrow> 'b comp) \<Rightarrow> 'b comp" where
  "and_then m f =
     (case m of
        (Inl e, t) \<Rightarrow> (Inl e, t)
      | (Inr x, t) \<Rightarrow> (case f x of (r, t') \<Rightarrow> (r, t @ t')))"

text \<open>\<open>try: m except Exception as e: h e\<close>\<close>

definition try_except :: "'a comp \<Rightarrow> (exn \<Rightarrow> 'a comp) \<Rightarrow> 'a comp" where
  "try_except m h =
     (case m of
        (Inl e, t) \<Rightarrow> (case h e of (r, t') \<Rightarrow> (r, t @ t'))
      | (Inr x, t) \<Rightarrow> (Inr x, t))"

subsection \<open>Python's library functions\<close>

text \<open>
  \<open>str.lower\<close> on the ASCII letters. (Python lowers every cased code point; no code
  point outside ASCII lowers to one of the letters of the strings the handler compares
  with.)
\<close>

definition lower_char :: "char \<Rightarrow> char" where
  "lower_char c =
     (let n = (of_char c :: nat) in if 65 \<le> n \<and> n \<le> 90 then char_of (n + 32) else c)"

definition lower :: "string \<Rightarrow> string" where
  "lower s = map lower_char s"

definition endswith :: "string \<Rightarrow> string \<Rightarrow> bool" where
  "endswith s e = (length e \<le> length s \<and> drop (length s - length e) s = e)"

text \<open>\<open>s.endswith(t)\<close> for a tuple \<open>t\<close>: some member of the tuple is a suffix.\<close>

definition endswith_any :: "string \<Rightarrow> string list \<Rightarrow> bool" where
  "endswith_any s es = list_ex (endswith s) es"

text \<open>\<open>p.rfind(c)\<close>: the index of the last \<open>c\<close> in \<open>p\<close>, or \<open>-1\<close>.\<close>

fun rfind_from :: "string \<Rightarrow> char \<Rightarrow> int \<Rightarrow> int \<Rightarrow> int" where
  "rfind_from [] c i found = found"
| "rfind_from (x # xs) c i found = rfind_from xs c (i + 1) (if x = c then i else found)"

definition rfind :: "string \<Rightarrow> char \<Rightarrow> int" where
  "rfind p c = rfind_from p c 0 (- 1)"

text \<open>
  \<open>os.path.splitext\<close> of \<open>posixpath\<close> (\<open>genericpath._splitext\<close> with \<open>sep = '/'\<close>,
  no \<open>altsep\<close>, \<open>extsep = '.'\<close>):
  \<^verbatim>\<open>
    sepIndex = p.rfind(sep)
    dotIndex = p.rfind(extsep)
    if dotIndex > sepIndex:
        filenameIndex = sepIndex + 1
        while filenameIndex < dotIndex:
            if p[filenameIndex:filenameIndex+1] != extsep:
                return p[:dotIndex], p[dotIndex:]
            filenameIndex += 1
    return p, p[:0]
  \<close>
  \<open>skip_dots\<close> is the loop: \<open>True\<close> when it returns from inside.
\<close>

function skip_dots :: "string \<Rightarrow> nat \<Rightarrow> nat \<Rightarrow> bool" where
  "skip_dots p filenameIndex dotIndex =
     (if filenameIndex < dotIndex then
        (if p ! filenameIndex \<noteq> CHR ''.'' then True
         else skip_dots p (filenameIndex + 1) dotIndex)
      else False)"
  by pat_completeness auto
termination
  by (relation "measure (\<lambda>(p, filenameIndex, dotIndex). dotIndex - filenameIndex)") auto

definition splitext :: "string \<Rightarrow> string \<times> string" where
  "splitext p =
     (let sepIndex = rfind p (CHR ''/'');
          dotIndex = rfind p (CHR ''.'')
      in if dotIndex > sepIndex \<and> skip_dots p (nat (sepIndex + 1)) (nat dotIndex)
         then (take (nat dotIndex) p, drop (nat dotIndex) p)
         else (p, []))"

text \<open>\<open>os.environ[name]\<close>\<close>

definition environ :: "env \<Rightarrow> string \<Rightarrow> exn + string" where
  "environ env name =
     (case env name of None \<Rightarrow> Inl (KeyError (py_repr name)) | Some v \<Rightarrow> Inr v)"

text \<open>\<open>os.environ.get(name, default)\<close>\<close>

definition environ_get :: "env \<Rightarrow> string \<Rightarrow> string \<Rightarrow> string" where
  "environ_get env name dflt = (case env name of None \<Rightarrow> dflt | Some v \<Rightarrow> v)"

subsection \<open>Subscripting the event\<close>

text \<open>
  \<open>obj[k]\<close> for a string \<open>k\<close> and \<open>obj[0]\<close>, on a value that \<open>json.loads\<close> made:
  a dict raises \<open>KeyError\<close> for a key it does not hold (its keys are strings, so \<open>0\<close> is
  never one), a list raises \<open>IndexError\<close> when it is empty and \<open>TypeError\<close> for a
  string index, a string gives its first character, and \<open>None\<close>, a boolean or a number
  cannot be subscripted. The messages are CPython 3.11's; the handler only prints them.
\<close>

datatype subscript = Name string | Zero

fun type_name :: "json \<Rightarrow> string" where
  "type_name JNull = ''NoneType''"
| "type_name (JBool b) = ''bool''"
| "type_name (JNum n) = ''int''"
| "type_name (JStr s) = ''str''"
| "type_name (JList xs) = ''list''"
| "type_name (JDict d) = ''dict''"

fun getitem :: "json \<Rightarrow> subscript \<Rightarrow> exn + json" where
  "getitem (JDict d) (Name k) =
     (case map_of d k of None \<Rightarrow> Inl (KeyError (py_repr k)) | Some v \<Rightarrow> Inr v)"
| "getitem (JDict d) Zero = Inl (KeyError ''0'')"
| "getitem (JList xs) Zero =
     (case xs of [] \<Rightarrow> Inl (IndexError ''list index out of range'') | x # _ \<Rightarrow> Inr x)"
| "getitem (JList xs) (Name k) =
     Inl (TypeError ''list indices must be integers or slices, not str'')"
| "getitem (JStr s) Zero =
     (case s of [] \<Rightarrow> Inl (IndexError ''string index out of range'') | c # _ \<Rightarrow> Inr (JStr [c]))"
| "getitem (JStr s) (Name k) =
     Inl (TypeError (''string indices must be integers, not '' @ py_repr ''str''))"
| "getitem obj sub =
     Inl (TypeError (py_repr (type_name obj) @ '' object is not subscriptable''))"

fun subscripts :: "json \<Rightarrow> subscript list \<Rightarrow> exn + json" where
  "subscripts obj [] = Inr obj"
| "subscripts obj (s # ss) =
     (case getitem obj s of Inl e \<Rightarrow> Inl e | Inr v \<Rightarrow> subscripts v ss)"

text \<open>
  Lines 17 and 18: \<open>bucket\<close> first, then \<open>key\<close>; the first subscript that raises ends
  the block.
\<close>

definition parse_event :: "json \<Rightarrow> exn + (json \<times> json)" where
  "parse_event event =
     (case subscripts event [Name ''Records'', Zero, Name ''s3'', Name ''bucket'', Name ''name''] of
        Inl e \<Rightarrow> Inl e
      | Inr bucket \<Rightarrow>
          (case subscripts event [Name ''Records'', Zero, Name ''s3'', Name ''object'', Name ''key''] of
             Inl e \<Rightarrow> Inl e
           | Inr key \<Rightarrow> Inr (bucket, key)))"

text \<open>\<open>except (KeyError, IndexError)\<close>\<close>

fun is_key_or_index_error :: "exn \<Rightarrow> bool" where
  "is_key_or_index_error (KeyError m) = True"
| "is_key_or_index_error (IndexError m) = True"
| "is_key_or_index_error e = False"

subsection \<open>The handler\<close>

definition image_extensions :: "string list" where
  "image_extensions = [''.png'', ''.jpg'', ''.jpeg'', ''.gif'', ''.bmp'']"

text \<open>Lines 70 and 91: \<open>os.environ.get('SEND_NOTIFICATIONS', 'false').lower() == 'true'\<close>\<close>

definition send_notifications :: "env \<Rightarrow> bool" where
  "send_notifications env = (lower (environ_get env ''SEND_NOTIFICATIONS'' ''false'') = ''true'')"

text \<open>
  Line 40. \<open>image.thumbnail\<close> changes the image object in place: Pillow replaces its
  pixel data, size and mode and leaves its \<open>format\<close> attribute as it is, so
  \<open>image.format\<close> on line 46 is the format of the image that was opened.
\<close>

definition thumbnail :: "world \<Rightarrow> nat \<times> nat \<Rightarrow> image \<Rightarrow> exn + image" where
  "thumbnail w bound im =
     (case Image_thumbnail w bound im of
        Inl e \<Rightarrow> Inl e
      | Inr im' \<Rightarrow> Inr (im'\<lparr>img_format := img_format im\<rparr>))"

text \<open>Lines 33 to 53: fetch, decode, resize, convert, encode.\<close>

definition transform :: "world \<Rightarrow> json \<Rightarrow> string \<Rightarrow> bytes comp" where
  "transform w bucket key =
     and_then (call (GetObject bucket key) (s3_get_object w bucket key)) (\<lambda>image_content.
     and_then (call (ImageOpen image_content) (Image_open w image_content)) (\<lambda>image.
     and_then (call (Thumbnail (150, 150) image) (thumbnail w (150, 150) image)) (\<lambda>image.
     and_then
       (if img_format image \<noteq> Some ''JPEG''
        then and_then (call (Convert ''RGB'' image) (Image_convert w ''RGB'' image))
               (\<lambda>image. ret (image, ''JPEG''))
        else ret (image, the (img_format image)))
       (\<lambda>(image, save_format).
     call (Save image save_format True 85) (Image_save w image save_format True 85)))))"

text \<open>Line 57: \<open>new_key = f"thumbnails/{os.path.splitext(key)[0]}.jpg"\<close>\<close>

definition new_key :: "string \<Rightarrow> string" where
  "new_key key = ''thumbnails/'' @ fst (splitext key) @ ''.jpg''"

text \<open>Line 74, the message of the success notification.\<close>

definition success_message :: "string \<Rightarrow> string \<Rightarrow> string" where
  "success_message key destination_bucket =
     ''Image '' @ key @ '' was successfully processed and saved to ''
     @ destination_bucket @ ''/'' @ new_key key"

text \<open>Line 87: \<open>error_msg = f"Error processing image {key}: {str(e)}"\<close>\<close>

definition error_msg :: "string \<Rightarrow> exn \<Rightarrow> string" where
  "error_msg key e = ''Error processing image '' @ key @ '': '' @ exn_str e"

text \<open>
  Lines 30 to 84: the body of the \<open>try\<close>. Reading \<open>os.environ\<close> is a step that can
  raise and makes no call.
\<close>

definition process :: "world \<Rightarrow> env \<Rightarrow> json \<Rightarrow> string \<Rightarrow> result comp" where
  "process w env bucket key =
     and_then (transform w bucket key) (\<lambda>in_mem_file.
     and_then (environ env ''DESTINATION_BUCKET'', []) (\<lambda>destination_bucket.
     and_then
       (call (PutObject destination_bucket (new_key key) in_mem_file ''image/jpeg'' ''STANDARD_IA'')
          (s3_put_object w destination_bucket (new_key key) in_mem_file
             ''image/jpeg'' ''STANDARD_IA''))
       (\<lambda>_.
     and_then
       (if send_notifications env
        then and_then (environ env ''SNS_TOPIC_ARN'', []) (\<lambda>topic.
               call (Publish topic ''Image Processing Successful''
                       (success_message key destination_bucket))
                 (sns_publish w topic ''Image Processing Successful''
                    (success_message key destination_bucket)))
        else ret ())
       (\<lambda>_.
     ret \<lparr>statusCode = 200,
          body = JsonDumps [(''message'', ''Image processed successfully''),
                            (''original_key'', key),
                            (''processed_key'', new_key key)]\<rparr>))))"

text \<open>
  Lines 86 to 99: the \<open>except Exception as e\<close> block. An exception raised inside it
  (by the lookup of the topic or by \<open>sns.publish\<close>) leaves the handler in place of
  \<open>e\<close>.
\<close>

definition on_error :: "world \<Rightarrow> env \<Rightarrow> string \<Rightarrow> exn \<Rightarrow> result comp" where
  "on_error w env key e =
     and_then
       (if send_notifications env
        then and_then (environ env ''SNS_TOPIC_ARN'', []) (\<lambda>topic.
               call (Publish topic ''Image Processing Failed'' (error_msg key e))
                 (sns_publish w topic ''Image Processing Failed'' (error_msg key e)))
        else ret ())
       (\<lambda>_. raise e)"

text \<open>
  Lines 11 to 99. A key that is not a string has no \<open>lower\<close>: line 25 raises
  \<open>AttributeError\<close>, outside both \<open>try\<close> blocks.
\<close>

definition lambda_handler :: "world \<Rightarrow> env \<Rightarrow> json \<Rightarrow> result comp" where
  "lambda_handler w env event =
     (case parse_event event of
        Inl e \<Rightarrow>
          (if is_key_or_index_error e
           then ret \<lparr>statusCode = 400, body = Text ''Invalid event structure''\<rparr>
           else raise e)
      | Inr (bucket, key) \<Rightarrow>
          (case key of
             JStr key \<Rightarrow>
               (if \<not> endswith_any (lower key) image_extensions
                then ret \<lparr>statusCode = 200,
                          body = Text ''Not an image file, skipping processing''\<rparr>
                else try_except (process w env bucket key) (on_error w env key))
           | _ \<Rightarrow>
               raise (AttributeError (py_repr (type_name key) @ '' object has no attribute ''
                                      @ py_repr ''lower''))))"

subsection \<open>Notions the statements use\<close>

text \<open>
  \<open>field ks obj\<close> follows the names \<open>ks\<close> through nested mappings and gives the value
  it reaches. \<open>lacks ks obj\<close>: on the way, a mapping does not hold the next name. A
  value on the way that is not a mapping neither has nor lacks the field.
\<close>

primrec field :: "string list \<Rightarrow> json \<Rightarrow> json option" where
  "field [] obj = Some obj"
| "field (k # ks) obj =
     (case obj of
        JDict d \<Rightarrow> (case map_of d k of None \<Rightarrow> None | Some v \<Rightarrow> field ks v)
      | _ \<Rightarrow> None)"

primrec lacks :: "string list \<Rightarrow> json \<Rightarrow> bool" where
  "lacks [] obj = False"
| "lacks (k # ks) obj =
     (case obj of
        JDict d \<Rightarrow> (case map_of d k of None \<Rightarrow> True | Some v \<Rightarrow> lacks ks v)
      | _ \<Rightarrow> False)"

subsection \<open>Example inputs\<close>

text \<open>
  The closed theorems below run the handler on these. \<open>s3_event bucket key\<close> is an
  object-created notification as S3 sends it, cut down to a few of its fields.
\<close>

definition s3_event :: "string \<Rightarrow> string \<Rightarrow> json" where
  "s3_event bucket key =
     JDict [(''Records'',
       JList [JDict [(''eventSource'', JStr ''aws:s3''),
                     (''eventName'', JStr ''ObjectCreated:Put''),
                     (''s3'', JDict [(''bucket'', JDict [(''name'', JStr bucket)]),
                                     (''object'', JDict [(''key'', JStr key),
                                                         (''size'', JNum 1024)])])]])]"

definition event_without_key :: json where
  "event_without_key =
     JDict [(''Records'',
       JList [JDict [(''s3'', JDict [(''bucket'', JDict [(''name'', JStr ''uploads'')]),
                                     (''object'', JDict [(''size'', JNum 1024)])])]])]"

text \<open>
  A store with two objects, a decoder that knows them, a resize that fits the size into
  the bound, and services that answer every call.
\<close>

definition example_resize :: "nat \<times> nat \<Rightarrow> image \<Rightarrow> exn + image" where
  "example_resize bound im =
     (let (bw, bh) = bound; (iw, ih) = img_size im in
      if iw \<le> bw \<and> ih \<le> bh then Inr im
      else if ih * bw \<le> iw * bh
        then Inr (im\<lparr>img_size := (bw, max 1 ((ih * bw + iw div 2) div iw))\<rparr>)
        else Inr (im\<lparr>img_size := (max 1 ((iw * bh + ih div 2) div ih), bh)\<rparr>))"

definition example_world :: world where
  "example_world =
     \<lparr>s3_get_object = (\<lambda>bucket key.
        if bucket = JStr ''uploads'' \<and> key = ''photos/vacation.PNG'' then Inr ''png-bytes''
        else if bucket = JStr ''uploads'' \<and> key = ''photos/small.jpg'' then Inr ''jpeg-bytes''
        else Inl (Error ''NoSuchKey'')),
      s3_put_object = (\<lambda>bucket key data content_type storage_class. Inr ()),
      sns_publish = (\<lambda>topic subject message. Inr ()),
      Image_open = (\<lambda>data.
        if data = ''png-bytes''
        then Inr \<lparr>img_format = Some ''PNG'', img_mode = ''RGBA'', img_size = (800, 600),
                  img_data = ''png-pixels''\<rparr>
        else if data = ''jpeg-bytes''
        then Inr \<lparr>img_format = Some ''JPEG'', img_mode = ''RGB'', img_size = (120, 90),
                  img_data = ''jpeg-pixels''\<rparr>
        else Inl (Error ''cannot identify image file'')),
      Image_thumbnail = example_resize,
      Image_convert = (\<lambda>mode im. Inr (im\<lparr>img_format := None, img_mode := mode\<rparr>)),
      Image_save = (\<lambda>im fmt optimize quality. Inr (fmt @ '':'' @ img_data im))\<rparr>"

definition example_env :: env where
  "example_env = [''DESTINATION_BUCKET'' \<mapsto> ''thumbs'']"

definition notifying_env :: env where
  "notifying_env =
     [''DESTINATION_BUCKET'' \<mapsto> ''thumbs'', ''SEND_NOTIFICATIONS'' \<mapsto> ''true'',
      ''SNS_TOPIC_ARN'' \<mapsto> ''arn:aws:sns:topic'']"

text \<open>The two images of the example decoder, and the calls of the transform on the first.\<close>

definition png_image :: image where
  "png_image = \<lparr>img_format = Some ''PNG'', img_mode = ''RGBA'', img_size = (800, 600),
                 img_data = ''png-pixels''\<rparr>"

definition jpeg_image :: image where
  "jpeg_image = \<lparr>img_format = Some ''JPEG'', img_mode = ''RGB'', img_size = (120, 90),
                  img_data = ''jpeg-pixels''\<rparr>"

definition vacation_calls :: "call list" where
  "vacation_calls =
     [GetObject (JStr ''uploads'') ''photos/vacation.PNG'',
      ImageOpen ''png-bytes'',
      Thumbnail (150, 150) png_image,
      Convert ''RGB'' (png_image\<lparr>img_size := (150, 113)\<rparr>),
      Save (png_image\<lparr>img_format := None, img_mode := ''RGB'', img_size := (150, 113)\<rparr>)
        ''JPEG'' True 85]"

text \<open>
  The same world with a notifier that refuses every publish, and with one that refuses
  the success publish only.
\<close>

definition sns_down_world :: world where
  "sns_down_world =
     example_world\<lparr>sns_publish := (\<lambda>topic subject message. Inl (Error ''AuthorizationError''))\<rparr>"

definition success_topic_down_world :: world where
  "success_topic_down_world =
     example_world\<lparr>sns_publish := (\<lambda>topic subject message.
        if subject = ''Image Processing Successful'' then Inl (Error ''Throttled'') else Inr ())\<rparr>"

definition env_without_bucket :: env where
  "env_without_bucket =
     [''SEND_NOTIFICATIONS'' \<mapsto> ''true'', ''SNS_TOPIC_ARN'' \<mapsto> ''arn:aws:sns:topic'']"

section \<open>Basic facts\<close>

lemma and_then_Inl [simp]: "and_then (Inl e, t) f = (Inl e, t)"
  by (simp add: and_then_def)

lemma and_then_Inr [simp]: "and_then (Inr x, t) f = (fst (f x), t @ snd (f x))"
  by (simp add: and_then_def split: prod.splits)

lemma and_then_ret [simp]: "and_then (ret x) f = f x"
  by (simp add: ret_def)

lemma try_except_Inl [simp]: "try_except (Inl e, t) h = (fst (h e), t @ snd (h e))"
  by (simp add: try_except_def split: prod.splits)

lemma try_except_Inr [simp]: "try_except (Inr x, t) h = (Inr x, t)"
  by (simp add: try_except_def)

subsection \<open>Strings\<close>

lemma endswith_iff: "endswith s e \<longleftrightarrow> (\<exists>p. s = p @ e)"
proof
  assume "endswith s e"
  then have "s = take (length s - length e) s @ e"
    by (metis append_take_drop_id endswith_def)
  then show "\<exists>p. s = p @ e" ..
next
  assume "\<exists>p. s = p @ e"
  then show "endswith s e"
    by (auto simp: endswith_def)
qed

lemma endswith_any_iff: "endswith_any s es \<longleftrightarrow> (\<exists>e\<in>set es. \<exists>p. s = p @ e)"
  by (simp add: endswith_any_def list_ex_iff endswith_iff)

subsection \<open>Reading the event\<close>

lemma subscripts_lacks:
  "lacks ks obj \<Longrightarrow> \<exists>m. subscripts obj (map Name ks) = Inl (KeyError m)"
proof (induction ks arbitrary: obj)
  case Nil
  then show ?case by simp
next
  case (Cons k ks)
  then show ?case
    by (cases obj) (auto split: option.splits)
qed

lemma subscripts_field:
  "field ks obj = Some v \<Longrightarrow> subscripts obj (map Name ks) = Inr v"
proof (induction ks arbitrary: obj)
  case Nil
  then show ?case by simp
next
  case (Cons k ks)
  then show ?case
    by (cases obj) (auto split: option.splits)
qed

lemma subscripts_Records:
  "field [''Records''] event = Some (JList (r # rs)) \<Longrightarrow>
   subscripts event (Name ''Records'' # Zero # ss) = subscripts r ss"
  by (cases event) (auto split: option.splits)

text \<open>An event of the documented shape parses, whatever else it holds.\<close>

lemma parse_event_well_formed:
  assumes "field [''Records''] event = Some (JList (r # rs))"
    and "field [''s3'', ''bucket'', ''name''] r = Some bucket"
    and "field [''s3'', ''object'', ''key''] r = Some key"
  shows "parse_event event = Inr (bucket, key)"
  using subscripts_field[OF assms(2)] subscripts_field[OF assms(3)]
  by (simp add: parse_event_def subscripts_Records[OF assms(1)] del: subscripts.simps)

lemma parse_s3_event: "parse_event (s3_event bucket key) = Inr (JStr bucket, JStr key)"
  by (simp add: parse_event_def s3_event_def)

subsection \<open>The handler's parts\<close>

lemma handler_image:
  assumes "parse_event event = Inr (bucket, JStr key)"
    and "endswith_any (lower key) image_extensions"
  shows "lambda_handler w env event = try_except (process w env bucket key) (on_error w env key)"
  using assms by (simp add: lambda_handler_def)

lemma on_error_off:
  "\<not> send_notifications env \<Longrightarrow> on_error w env key e = (Inl e, [])"
  by (simp add: on_error_def raise_def)

lemma on_error_no_topic:
  "send_notifications env \<Longrightarrow> env ''SNS_TOPIC_ARN'' = None \<Longrightarrow>
   on_error w env key e = (Inl (KeyError (py_repr ''SNS_TOPIC_ARN'')), [])"
  by (simp add: on_error_def environ_def)

lemma on_error_topic:
  "send_notifications env \<Longrightarrow> env ''SNS_TOPIC_ARN'' = Some topic \<Longrightarrow>
   on_error w env key e =
     ((case sns_publish w topic ''Image Processing Failed'' (error_msg key e) of
         Inl e' \<Rightarrow> Inl e' | Inr u \<Rightarrow> Inl e),
      [Publish topic ''Image Processing Failed'' (error_msg key e)])"
  by (simp add: on_error_def environ_def call_def and_then_def raise_def split: sum.splits)

lemma on_error_raises: "\<exists>e'. fst (on_error w env key e) = Inl e'"
  by (cases "send_notifications env"; cases "env ''SNS_TOPIC_ARN''")
     (auto simp: on_error_off on_error_no_topic on_error_topic split: sum.splits)

lemma on_error_no_put: "filter is_put (snd (on_error w env key e)) = []"
  by (cases "send_notifications env"; cases "env ''SNS_TOPIC_ARN''")
     (auto simp: on_error_off on_error_no_topic on_error_topic split: sum.splits)

lemma process_transform_fails:
  "transform w bucket key = (Inl e, t) \<Longrightarrow> process w env bucket key = (Inl e, t)"
  by (simp add: process_def)

lemma process_no_bucket:
  "transform w bucket key = (Inr d, t) \<Longrightarrow> env ''DESTINATION_BUCKET'' = None \<Longrightarrow>
   process w env bucket key = (Inl (KeyError (py_repr ''DESTINATION_BUCKET'')), t)"
  by (simp add: process_def environ_def)

lemma process_put_fails:
  "transform w bucket key = (Inr d, t) \<Longrightarrow> env ''DESTINATION_BUCKET'' = Some dst \<Longrightarrow>
   s3_put_object w dst (new_key key) d ''image/jpeg'' ''STANDARD_IA'' = Inl e \<Longrightarrow>
   process w env bucket key =
     (Inl e, t @ [PutObject dst (new_key key) d ''image/jpeg'' ''STANDARD_IA''])"
  by (simp add: process_def environ_def call_def)

lemma process_put_silent:
  "transform w bucket key = (Inr d, t) \<Longrightarrow> env ''DESTINATION_BUCKET'' = Some dst \<Longrightarrow>
   s3_put_object w dst (new_key key) d ''image/jpeg'' ''STANDARD_IA'' = Inr u \<Longrightarrow>
   \<not> send_notifications env \<Longrightarrow>
   process w env bucket key =
     (Inr \<lparr>statusCode = 200,
           body = JsonDumps [(''message'', ''Image processed successfully''),
                             (''original_key'', key),
                             (''processed_key'', new_key key)]\<rparr>,
      t @ [PutObject dst (new_key key) d ''image/jpeg'' ''STANDARD_IA''])"
  by (simp add: process_def environ_def call_def ret_def)

lemma process_put_no_topic:
  "transform w bucket key = (Inr d, t) \<Longrightarrow> env ''DESTINATION_BUCKET'' = Some dst \<Longrightarrow>
   s3_put_object w dst (new_key key) d ''image/jpeg'' ''STANDARD_IA'' = Inr u \<Longrightarrow>
   send_notifications env \<Longrightarrow> env ''SNS_TOPIC_ARN'' = None \<Longrightarrow>
   process w env bucket key =
     (Inl (KeyError (py_repr ''SNS_TOPIC_ARN'')),
      t @ [PutObject dst (new_key key) d ''image/jpeg'' ''STANDARD_IA''])"
  by (simp add: process_def environ_def call_def ret_def)

lemma process_put_publish:
  "transform w bucket key = (Inr d, t) \<Longrightarrow> env ''DESTINATION_BUCKET'' = Some dst \<Longrightarrow>
   s3_put_object w dst (new_key key) d ''image/jpeg'' ''STANDARD_IA'' = Inr u \<Longrightarrow>
   send_notifications env \<Longrightarrow> env ''SNS_TOPIC_ARN'' = Some topic \<Longrightarrow>
   process w env bucket key =
     ((case sns_publish w topic ''Image Processing Successful'' (success_message key dst) of
         Inl e \<Rightarrow> Inl e
       | Inr u \<Rightarrow>
           Inr \<lparr>statusCode = 200,
                body = JsonDumps [(''message'', ''Image processed successfully''),
                                  (''original_key'', key),
                                  (''processed_key'', new_key key)]\<rparr>),
      t @ [PutObject dst (new_key key) d ''image/jpeg'' ''STANDARD_IA'',
           Publish topic ''Image Processing Successful'' (success_message key dst)])"
  by (simp add: process_def environ_def call_def ret_def and_then_def split: sum.splits)

lemma transform_no_publish: "filter is_publish (snd (transform w bucket key)) = []"
  by (simp add: transform_def and_then_def call_def ret_def split: sum.splits prod.splits)

lemma transform_no_put: "filter is_put (snd (transform w bucket key)) = []"
  by (simp add: transform_def and_then_def call_def ret_def split: sum.splits prod.splits)

lemma process_silent:
  assumes "\<not> send_notifications env"
  shows "filter is_publish (snd (process w env bucket key)) = []"
proof (cases "transform w bucket key")
  case (Pair r t)
  have t: "filter is_publish t = []"
    using transform_no_publish[of w bucket key] Pair by simp
  show ?thesis
  proof (cases r)
    case (Inl e)
    with Pair t show ?thesis by (simp add: process_transform_fails)
  next
    case (Inr d)
    show ?thesis
    proof (cases "env ''DESTINATION_BUCKET''")
      case None
      with Pair Inr t show ?thesis by (simp add: process_no_bucket)
    next
      case (Some dst)
      show ?thesis
      proof (cases "s3_put_object w dst (new_key key) d ''image/jpeg'' ''STANDARD_IA''")
        case (Inl e)
        with Pair Inr Some t show ?thesis by (simp add: process_put_fails)
      next
        case Inr': (Inr u)
        with Pair Inr Some t assms show ?thesis by (simp add: process_put_silent)
      qed
    qed
  qed
qed

lemma process_cases [case_names transform_fails no_bucket put_fails silent no_topic publish]:
  assumes "\<And>e t. transform w bucket key = (Inl e, t) \<Longrightarrow>
             process w env bucket key = (Inl e, t) \<Longrightarrow> P"
    and "\<And>d t. transform w bucket key = (Inr d, t) \<Longrightarrow> env ''DESTINATION_BUCKET'' = None \<Longrightarrow>
             process w env bucket key = (Inl (KeyError (py_repr ''DESTINATION_BUCKET'')), t) \<Longrightarrow> P"
    and "\<And>d t dst e. transform w bucket key = (Inr d, t) \<Longrightarrow>
             env ''DESTINATION_BUCKET'' = Some dst \<Longrightarrow>
             s3_put_object w dst (new_key key) d ''image/jpeg'' ''STANDARD_IA'' = Inl e \<Longrightarrow>
             process w env bucket key =
               (Inl e, t @ [PutObject dst (new_key key) d ''image/jpeg'' ''STANDARD_IA'']) \<Longrightarrow> P"
    and "\<And>d t dst. transform w bucket key = (Inr d, t) \<Longrightarrow>
             env ''DESTINATION_BUCKET'' = Some dst \<Longrightarrow>
             s3_put_object w dst (new_key key) d ''image/jpeg'' ''STANDARD_IA'' = Inr () \<Longrightarrow>
             \<not> send_notifications env \<Longrightarrow>
             process w env bucket key =
               (Inr \<lparr>statusCode = 200,
                     body = JsonDumps [(''message'', ''Image processed successfully''),
                                       (''original_key'', key),
                                       (''processed_key'', new_key key)]\<rparr>,
                t @ [PutObject dst (new_key key) d ''image/jpeg'' ''STANDARD_IA'']) \<Longrightarrow> P"
    and "\<And>d t dst. transform w bucket key = (Inr d, t) \<Longrightarrow>
             env ''DESTINATION_BUCKET'' = Some dst \<Longrightarrow>
             s3_put_object w dst (new_key key) d ''image/jpeg'' ''STANDARD_IA'' = Inr () \<Longrightarrow>
             send_notifications env \<Longrightarrow> env ''SNS_TOPIC_ARN'' = None \<Longrightarrow>
             process w env bucket key =
               (Inl (KeyError (py_repr ''SNS_TOPIC_ARN'')),
                t @ [PutObject dst (new_key key) d ''image/jpeg'' ''STANDARD_IA'']) \<Longrightarrow> P"
    and "\<And>d t dst topic. transform w bucket key = (Inr d, t) \<Longrightarrow>
             env ''DESTINATION_BUCKET'' = Some dst \<Longrightarrow>
             s3_put_object w dst (new_key key) d ''image/jpeg'' ''STANDARD_IA'' = Inr () \<Longrightarrow>
             send_notifications env \<Longrightarrow> env ''SNS_TOPIC_ARN'' = Some topic \<Longrightarrow>
             process w env bucket key =
               ((case sns_publish w topic ''Image Processing Successful''
                       (success_message key dst) of
                   Inl e \<Rightarrow> Inl e
                 | Inr u \<Rightarrow>
                     Inr \<lparr>statusCode = 200,
                          body = JsonDumps [(''message'', ''Image processed successfully''),
                                            (''original_key'', key),
                                            (''processed_key'', new_key key)]\<rparr>),
                t @ [PutObject dst (new_key key) d ''image/jpeg'' ''STANDARD_IA'',
                     Publish topic ''Image Processing Successful''
                       (success_message key dst)]) \<Longrightarrow> P"
  shows P
proof (cases "transform w bucket key")
  case (Pair r t)
  show ?thesis
  proof (cases r)
    case (Inl e)
    with Pair assms(1) show ?thesis
      by (simp add: process_transform_fails)
  next
    case (Inr d)
    note tr = Pair[unfolded Inr]
    show ?thesis
    proof (cases "env ''DESTINATION_BUCKET''")
      case None
      from assms(2)[OF tr None process_no_bucket[where env = env, OF tr None]] show ?thesis .
    next
      case (Some dst)
      show ?thesis
      proof (cases "s3_put_object w dst (new_key key) d ''image/jpeg'' ''STANDARD_IA''")
        case (Inl e)
        from assms(3)[OF tr Some Inl process_put_fails[where env = env, OF tr Some Inl]] show ?thesis .
      next
        case put: (Inr u)
        then have put': "s3_put_object w dst (new_key key) d ''image/jpeg'' ''STANDARD_IA'' = Inr ()"
          by simp
        show ?thesis
        proof (cases "send_notifications env")
          case False
          from assms(4)[OF tr Some put' False process_put_silent[where env = env, OF tr Some put' False]]
          show ?thesis .
        next
          case True
          show ?thesis
          proof (cases "env ''SNS_TOPIC_ARN''")
            case None
            from assms(5)[OF tr Some put' True None process_put_no_topic[where env = env, OF tr Some put' True None]]
            show ?thesis .
          next
            case topic: (Some topic)
            from assms(6)[OF tr Some put' True topic
                process_put_publish[where env = env, OF tr Some put' True topic]]
            show ?thesis .
          qed
        qed
      qed
    qed
  qed
qed

lemma on_error_cases [case_names off no_topic publish]:
  assumes "\<not> send_notifications env \<Longrightarrow> on_error w env key e = (Inl e, []) \<Longrightarrow> P"
    and "send_notifications env \<Longrightarrow> env ''SNS_TOPIC_ARN'' = None \<Longrightarrow>
         on_error w env key e = (Inl (KeyError (py_repr ''SNS_TOPIC_ARN'')), []) \<Longrightarrow> P"
    and "\<And>topic. send_notifications env \<Longrightarrow> env ''SNS_TOPIC_ARN'' = Some topic \<Longrightarrow>
         on_error w env key e =
           ((case sns_publish w topic ''Image Processing Failed'' (error_msg key e) of
               Inl e' \<Rightarrow> Inl e' | Inr u \<Rightarrow> Inl e),
            [Publish topic ''Image Processing Failed'' (error_msg key e)]) \<Longrightarrow> P"
  shows P
proof (cases "send_notifications env")
  case False
  with assms(1) show ?thesis
    by (simp add: on_error_off)
next
  case True
  show ?thesis
  proof (cases "env ''SNS_TOPIC_ARN''")
    case None
    with True assms(2) show ?thesis
      by (simp add: on_error_no_topic)
  next
    case (Some topic)
    with True assms(3) show ?thesis
      by (simp add: on_error_topic)
  qed
qed

lemma process_returns:
  assumes "process w env bucket key = (Inr res, t)"
  shows "\<exists>dst d. env ''DESTINATION_BUCKET'' = Some dst
           \<and> filter is_put t = [PutObject dst (new_key key) d ''image/jpeg'' ''STANDARD_IA'']
           \<and> res = \<lparr>statusCode = 200,
                    body = JsonDumps [(''message'', ''Image processed successfully''),
                                      (''original_key'', key),
                                      (''processed_key'', new_key key)]\<rparr>"
proof (cases rule: process_cases[of w bucket key env])
  case (silent d t0 dst)
  with assms transform_no_put[of w bucket key] show ?thesis by auto
next
  case (publish d t0 dst topic)
  with assms transform_no_put[of w bucket key] show ?thesis
    by (auto split: sum.splits)
qed (use assms in simp_all)

subsection \<open>The calls of a run\<close>

lemma transform_starts: "\<exists>rest. snd (transform w bucket key) = GetObject bucket key # rest"
  by (simp add: transform_def and_then_def call_def ret_def split: sum.splits prod.splits)

lemma transform_returns:
  assumes "transform w bucket key = (Inr d, t)"
  shows "\<exists>i. Save i ''JPEG'' True 85 \<in> set t \<and> Image_save w i ''JPEG'' True 85 = Inr d"
  using assms
  by (auto simp: transform_def and_then_def call_def ret_def split: sum.splits prod.splits if_splits)

lemma handler_puts:
  assumes "parse_event event = Inr (bucket, JStr key)"
    and "endswith_any (lower key) image_extensions"
  shows "filter is_put (snd (lambda_handler w env event)) =
           (case transform w bucket key of
              (Inl e, t) \<Rightarrow> []
            | (Inr d, t) \<Rightarrow>
                (case env ''DESTINATION_BUCKET'' of
                   None \<Rightarrow> []
                 | Some dst \<Rightarrow> [PutObject dst (new_key key) d ''image/jpeg'' ''STANDARD_IA'']))"
proof -
  have np: "filter is_put (snd (transform w bucket key)) = []"
    by (rule transform_no_put)
  have h: "lambda_handler w env event = try_except (process w env bucket key) (on_error w env key)"
    by (rule handler_image[OF assms])
  show ?thesis
  proof (cases rule: process_cases[of w bucket key env])
    case (transform_fails e t)
    with np show ?thesis by (simp add: h on_error_no_put)
  next
    case (no_bucket d t)
    with np show ?thesis by (simp add: h on_error_no_put)
  next
    case (put_fails d t dst e)
    with np show ?thesis by (simp add: h on_error_no_put)
  next
    case (silent d t dst)
    with np show ?thesis by (simp add: h)
  next
    case (no_topic d t dst)
    with np show ?thesis by (simp add: h on_error_no_put)
  next
    case (publish d t dst topic)
    with np show ?thesis
      by (cases "sns_publish w topic ''Image Processing Successful'' (success_message key dst)")
         (simp_all add: h on_error_no_put)
  qed
qed

lemma handler_trace_prefix:
  assumes "parse_event event = Inr (bucket, JStr key)"
    and "endswith_any (lower key) image_extensions"
  shows "\<exists>rest. snd (lambda_handler w env event) = snd (transform w bucket key) @ rest"
proof -
  have h: "lambda_handler w env event = try_except (process w env bucket key) (on_error w env key)"
    by (rule handler_image[OF assms])
  show ?thesis
  proof (cases rule: process_cases[of w bucket key env])
    case (publish d t dst topic)
    then show ?thesis
      by (cases "sns_publish w topic ''Image Processing Successful'' (success_message key dst)")
         (simp_all add: h)
  qed (simp_all add: h)
qed

text \<open>When the transform answers and the destination bucket is set, the upload follows.\<close>

lemma handler_uploads:
  assumes "parse_event event = Inr (bucket, JStr key)"
    and "endswith_any (lower key) image_extensions"
    and "transform w bucket key = (Inr d, t)"
    and "env ''DESTINATION_BUCKET'' = Some dst"
  shows "\<exists>rest. snd (lambda_handler w env event) =
                  t @ PutObject dst (new_key key) d ''image/jpeg'' ''STANDARD_IA'' # rest
                \<and> filter is_put rest = []"
proof -
  have h: "lambda_handler w env event = try_except (process w env bucket key) (on_error w env key)"
    by (rule handler_image[OF assms(1,2)])
  show ?thesis
  proof (cases rule: process_cases[of w bucket key env])
    case (transform_fails e t')
    with assms(3) show ?thesis by simp
  next
    case (no_bucket d' t')
    with assms(4) show ?thesis by simp
  next
    case (put_fails d' t' dst' e)
    with assms(3,4) show ?thesis by (simp add: h on_error_no_put)
  next
    case (silent d' t' dst')
    with assms(3,4) show ?thesis by (simp add: h)
  next
    case (no_topic d' t' dst')
    with assms(3,4) show ?thesis by (simp add: h on_error_no_put)
  next
    case (publish d' t' dst' topic)
    with assms(3,4) show ?thesis
      by (cases "sns_publish w topic ''Image Processing Successful'' (success_message key dst')")
         (simp_all add: h on_error_no_put)
  qed
qed

lemma split_after_prefix:
  assumes "t0 @ l = t1 @ x # t2" and "x \<notin> set t0"
  shows "\<exists>us. t1 = t0 @ us \<and> l = us @ x # t2"
proof -
  from assms(1) obtain us where
    "(t0 = t1 @ us \<and> us @ l = x # t2) \<or> (t0 @ us = t1 \<and> l = us @ x # t2)"
    by (auto simp: append_eq_append_conv2)
  then show ?thesis
  proof
    assume a: "t0 = t1 @ us \<and> us @ l = x # t2"
    show ?thesis
    proof (cases us)
      case Nil
      with a show ?thesis by auto
    next
      case (Cons u us')
      with a have "x \<in> set t0" by auto
      with assms(2) show ?thesis by simp
    qed
  next
    assume "t0 @ us = t1 \<and> l = us @ x # t2"
    then show ?thesis by auto
  qed
qed

lemma transform_publish_free: "Publish tp s m \<notin> set (snd (transform w bucket key))"
proof
  assume "Publish tp s m \<in> set (snd (transform w bucket key))"
  then have "Publish tp s m \<in> set (filter is_publish (snd (transform w bucket key)))"
    by simp
  then show False
    by (simp add: transform_no_publish)
qed

lemma success_publish_after_put:
  assumes "snd (lambda_handler w env event) =
             t1 @ Publish tp ''Image Processing Successful'' m # t2"
  shows "\<exists>dst k d. t1 \<noteq> [] \<and> last t1 = PutObject dst k d ''image/jpeg'' ''STANDARD_IA''
           \<and> s3_put_object w dst k d ''image/jpeg'' ''STANDARD_IA'' = Inr ()
           \<and> filter is_publish t1 = []"
proof (cases "parse_event event")
  case (Inl e)
  with assms show ?thesis
    by (simp add: lambda_handler_def ret_def raise_def split: if_splits)
next
  case (Inr p)
  obtain bucket k where p: "p = (bucket, k)"
    by (cases p)
  show ?thesis
  proof (cases k)
    case (JStr key)
    show ?thesis
    proof (cases "endswith_any (lower key) image_extensions")
      case False
      with assms Inr p JStr show ?thesis
        by (simp add: lambda_handler_def ret_def)
    next
      case True
      have h: "lambda_handler w env event =
                 try_except (process w env bucket key) (on_error w env key)"
        using Inr p JStr True by (simp add: handler_image)
      let ?P = "Publish tp ''Image Processing Successful'' m"
      have nf: "?P \<notin> set (snd (transform w bucket key))"
        by (rule transform_publish_free)
      have np: "filter is_publish (snd (transform w bucket key)) = []"
        by (rule transform_no_publish)
      show ?thesis
      proof (cases rule: process_cases[of w bucket key env])
        case (transform_fails e t)
        with assms h have eq: "t @ snd (on_error w env key e) = t1 @ ?P # t2"
          by simp
        from nf transform_fails have "?P \<notin> set t" by simp
        from split_after_prefix[OF eq this] obtain us where
          "snd (on_error w env key e) = us @ ?P # t2" by auto
        then show ?thesis
          by (cases rule: on_error_cases[of env w key e])
             (auto simp: Cons_eq_append_conv split: sum.splits)
      next
        case (no_bucket d t)
        let ?e = "KeyError (py_repr ''DESTINATION_BUCKET'')"
        from no_bucket assms h have eq: "t @ snd (on_error w env key ?e) = t1 @ ?P # t2"
          by simp
        from nf no_bucket have "?P \<notin> set t" by simp
        from split_after_prefix[OF eq this] obtain us where
          "snd (on_error w env key ?e) = us @ ?P # t2" by auto
        then show ?thesis
          by (cases rule: on_error_cases[of env w key ?e])
             (auto simp: Cons_eq_append_conv split: sum.splits)
      next
        case (put_fails d t dst e)
        let ?l = "PutObject dst (new_key key) d ''image/jpeg'' ''STANDARD_IA''
                  # snd (on_error w env key e)"
        from put_fails assms h have eq: "t @ ?l = t1 @ ?P # t2"
          by simp
        from nf put_fails have "?P \<notin> set t" by simp
        from split_after_prefix[OF eq this] obtain us where
          "?l = us @ ?P # t2" by auto
        then show ?thesis
          by (cases rule: on_error_cases[of env w key e])
             (auto simp: Cons_eq_append_conv split: sum.splits)
      next
        case (silent d t dst)
        let ?l = "[PutObject dst (new_key key) d ''image/jpeg'' ''STANDARD_IA'']"
        from silent assms h have eq: "t @ ?l = t1 @ ?P # t2"
          by simp
        from nf silent have "?P \<notin> set t" by simp
        from split_after_prefix[OF eq this] obtain us where
          "?l = us @ ?P # t2" by auto
        then show ?thesis
          by (auto simp: Cons_eq_append_conv)
      next
        case (no_topic d t dst)
        let ?e = "KeyError (py_repr ''SNS_TOPIC_ARN'')"
        let ?l = "PutObject dst (new_key key) d ''image/jpeg'' ''STANDARD_IA''
                  # snd (on_error w env key ?e)"
        from no_topic assms h have eq: "t @ ?l = t1 @ ?P # t2"
          by simp
        from nf no_topic have "?P \<notin> set t" by simp
        from split_after_prefix[OF eq this] obtain us where
          "?l = us @ ?P # t2" by auto
        with no_topic show ?thesis
          by (auto simp: on_error_no_topic Cons_eq_append_conv)
      next
        case (publish d t dst topic)
        let ?put = "PutObject dst (new_key key) d ''image/jpeg'' ''STANDARD_IA''"
        let ?pub = "Publish topic ''Image Processing Successful'' (success_message key dst)"
        from nf publish have nt: "?P \<notin> set t" by simp
        from np publish have npt: "filter is_publish t = []" by simp
        show ?thesis
        proof (cases "sns_publish w topic ''Image Processing Successful''
                        (success_message key dst)")
          case ok: (Inr u)
          with publish assms h have eq: "t @ [?put, ?pub] = t1 @ ?P # t2"
            by simp
          from split_after_prefix[OF eq nt] obtain us where
            us: "t1 = t @ us" "[?put, ?pub] = us @ ?P # t2" by auto
          from us(2) have "us = [?put]"
            by (auto simp: Cons_eq_append_conv)
          with us(1) publish npt show ?thesis
            by simp
        next
          case failed: (Inl e)
          with publish assms h have
            eq: "t @ (?put # ?pub # snd (on_error w env key e)) = t1 @ ?P # t2"
            by simp
          from split_after_prefix[OF eq nt] obtain us where
            us: "t1 = t @ us" "?put # ?pub # snd (on_error w env key e) = us @ ?P # t2"
            by auto
          from us(2) publish have "us = [?put]"
            by (auto simp: on_error_topic Cons_eq_append_conv)
          with us(1) publish npt show ?thesis
            by simp
        qed
      qed
    qed
  qed (use assms Inr p in \<open>simp_all add: lambda_handler_def raise_def\<close>)
qed

lemma transform_decoded:
  assumes "s3_get_object w bucket key = Inr content"
    and "Image_open w content = Inr im"
    and "Image_thumbnail w (150, 150) im = Inr im'"
  shows "transform w bucket key =
           (if img_format im \<noteq> Some ''JPEG''
            then (case Image_convert w ''RGB'' (im'\<lparr>img_format := img_format im\<rparr>) of
                    Inl e \<Rightarrow>
                      (Inl e, [GetObject bucket key, ImageOpen content, Thumbnail (150, 150) im,
                               Convert ''RGB'' (im'\<lparr>img_format := img_format im\<rparr>)])
                  | Inr rgb \<Rightarrow>
                      (Image_save w rgb ''JPEG'' True 85,
                       [GetObject bucket key, ImageOpen content, Thumbnail (150, 150) im,
                        Convert ''RGB'' (im'\<lparr>img_format := img_format im\<rparr>),
                        Save rgb ''JPEG'' True 85]))
            else (Image_save w (im'\<lparr>img_format := img_format im\<rparr>) ''JPEG'' True 85,
                  [GetObject bucket key, ImageOpen content, Thumbnail (150, 150) im,
                   Save (im'\<lparr>img_format := img_format im\<rparr>) ''JPEG'' True 85]))"
  using assms
  by (simp add: transform_def thumbnail_def call_def ret_def and_then_def
        split: sum.splits prod.splits)

subsection \<open>The example inputs, evaluated\<close>

lemmas example_defs =
  example_world_def sns_down_world_def success_topic_down_world_def
  example_resize_def example_env_def notifying_env_def env_without_bucket_def
  png_image_def jpeg_image_def

lemmas string_defs =
  endswith_any_def endswith_def lower_def lower_char_def image_extensions_def char_of_eq_iff
  splitext_def rfind_def new_key_def py_repr_def

lemma image_key_vacation: "endswith_any (lower ''photos/vacation.PNG'') image_extensions"
  by (simp add: string_defs)

lemma image_key_small: "endswith_any (lower ''photos/small.jpg'') image_extensions"
  by (simp add: string_defs)

lemma image_key_missing: "endswith_any (lower ''photos/missing.png'') image_extensions"
  by (simp add: string_defs)

lemma splitext_vacation: "splitext ''photos/vacation.PNG'' = (''photos/vacation'', ''.PNG'')"
  by (simp add: string_defs)

lemma new_key_vacation: "new_key ''photos/vacation.PNG'' = ''thumbnails/photos/vacation.jpg''"
  by (simp add: string_defs)

lemma send_notifications_examples:
  "\<not> send_notifications example_env \<and> send_notifications notifying_env
   \<and> send_notifications env_without_bucket"
  by (simp add: send_notifications_def environ_get_def example_defs string_defs)

lemma transform_vacation:
  "transform example_world (JStr ''uploads'') ''photos/vacation.PNG'' =
     (Inr ''JPEG:png-pixels'', vacation_calls)"
  "transform sns_down_world (JStr ''uploads'') ''photos/vacation.PNG'' =
     (Inr ''JPEG:png-pixels'', vacation_calls)"
  "transform success_topic_down_world (JStr ''uploads'') ''photos/vacation.PNG'' =
     (Inr ''JPEG:png-pixels'', vacation_calls)"
  by (simp_all add: transform_def thumbnail_def call_def ret_def example_defs vacation_calls_def)

lemma transform_missing:
  "transform example_world (JStr ''uploads'') ''photos/missing.png'' =
     (Inl (Error ''NoSuchKey''), [GetObject (JStr ''uploads'') ''photos/missing.png''])"
  "transform sns_down_world (JStr ''uploads'') ''photos/missing.png'' =
     (Inl (Error ''NoSuchKey''), [GetObject (JStr ''uploads'') ''photos/missing.png''])"
  by (simp_all add: transform_def call_def example_defs)

lemma transform_small:
  "transform example_world (JStr ''uploads'') ''photos/small.jpg'' =
     (Inr ''JPEG:jpeg-pixels'',
      [GetObject (JStr ''uploads'') ''photos/small.jpg'',
       ImageOpen ''jpeg-bytes'',
       Thumbnail (150, 150) jpeg_image,
       Save jpeg_image ''JPEG'' True 85])"
  by (simp add: transform_def thumbnail_def call_def ret_def example_defs)

section \<open>The statements of the specification\<close>

subsection \<open>Malformed events\<close>

text \<open>
  C1, as amended: an event that is a mapping without \<open>Records\<close>, or whose \<open>Records\<close>
  is an empty list, or in whose first record a mapping on the way through \<open>s3\<close>,
  \<open>bucket\<close>, \<open>name\<close> does not hold the next name, or whose first record holds the
  bucket name and in which a mapping on the way through \<open>s3\<close>, \<open>object\<close>, \<open>key\<close> does
  not hold the next name, is answered with status 400 and the body
  \<open>Invalid event structure\<close>: the handler returns (nothing is raised to the caller) and
  makes no call at all, so it publishes nothing. An event in which a value on the way is
  not a mapping is left out.
\<close>

theorem malformed_event_400:
  assumes "lacks [''Records''] event
         \<or> field [''Records''] event = Some (JList [])
         \<or> (\<exists>r rs. field [''Records''] event = Some (JList (r # rs))
               \<and> (lacks [''s3'', ''bucket'', ''name''] r
                  \<or> field [''s3'', ''bucket'', ''name''] r \<noteq> None
                    \<and> lacks [''s3'', ''object'', ''key''] r))"
  shows "lambda_handler w env event =
           (Inr \<lparr>statusCode = 400, body = Text ''Invalid event structure''\<rparr>, [])"
proof -
  have "\<exists>e. parse_event event = Inl e \<and> is_key_or_index_error e"
    using assms
  proof (elim disjE exE conjE)
    assume "lacks [''Records''] event"
    then show ?thesis
      by (cases event) (auto simp: parse_event_def split: option.splits)
  next
    assume "field [''Records''] event = Some (JList [])"
    then show ?thesis
      by (cases event) (auto simp: parse_event_def split: option.splits)
  next
    fix r rs
    assume R: "field [''Records''] event = Some (JList (r # rs))"
      and "lacks [''s3'', ''bucket'', ''name''] r"
    from subscripts_lacks[OF this(2)] obtain m where
      "subscripts r [Name ''s3'', Name ''bucket'', Name ''name''] = Inl (KeyError m)"
      by auto
    then show ?thesis
      by (simp add: parse_event_def subscripts_Records[OF R] del: subscripts.simps)
  next
    fix r rs
    assume R: "field [''Records''] event = Some (JList (r # rs))"
      and B: "field [''s3'', ''bucket'', ''name''] r \<noteq> None"
      and K: "lacks [''s3'', ''object'', ''key''] r"
    from B obtain b where "field [''s3'', ''bucket'', ''name''] r = Some b"
      by auto
    from subscripts_field[OF this]
    have b: "subscripts r [Name ''s3'', Name ''bucket'', Name ''name''] = Inr b"
      by simp
    from subscripts_lacks[OF K] obtain m where
      "subscripts r [Name ''s3'', Name ''object'', Name ''key''] = Inl (KeyError m)"
      by auto
    with b show ?thesis
      by (simp add: parse_event_def subscripts_Records[OF R] del: subscripts.simps)
  qed
  then show ?thesis
    by (auto simp: lambda_handler_def ret_def)
qed

text \<open>The empty event, an empty record list and a record without the object key.\<close>

theorem malformed_event_400_witness:
  "lambda_handler example_world notifying_env (JDict []) =
     (Inr \<lparr>statusCode = 400, body = Text ''Invalid event structure''\<rparr>, [])
   \<and> lambda_handler example_world notifying_env (JDict [(''Records'', JList [])]) =
     (Inr \<lparr>statusCode = 400, body = Text ''Invalid event structure''\<rparr>, [])
   \<and> lambda_handler example_world notifying_env event_without_key =
     (Inr \<lparr>statusCode = 400, body = Text ''Invalid event structure''\<rparr>, [])"
proof -
  have 1: "lacks [''Records''] (JDict [])"
    by simp
  have 2: "field [''Records''] (JDict [(''Records'', JList [])]) = Some (JList [])"
    by simp
  have 3: "\<exists>r rs. field [''Records''] event_without_key = Some (JList (r # rs))
               \<and> (lacks [''s3'', ''bucket'', ''name''] r
                  \<or> field [''s3'', ''bucket'', ''name''] r \<noteq> None
                    \<and> lacks [''s3'', ''object'', ''key''] r)"
    by (simp add: event_without_key_def)
  show ?thesis
    using malformed_event_400[of "JDict []" example_world notifying_env]
      malformed_event_400[of "JDict [(''Records'', JList [])]" example_world notifying_env]
      malformed_event_400[of event_without_key example_world notifying_env]
      1 2 3
    by blast
qed

text \<open>
  Two events whose first record has no bucket name, and the second no object key either:
  \<open>s3\<close> is \<open>null\<close> in the first, and the bucket is a string in the second. The
  subscript on line 17 raises \<open>TypeError\<close>, which line 19 does not catch, and the
  handler raises it to its caller. So not every first record without these fields is
  answered with status 400.
\<close>

theorem untyped_record_raises_type_error:
  "field [''s3'', ''bucket'', ''name''] (JDict [(''s3'', JNull)]) = None
   \<and> lambda_handler example_world notifying_env
        (JDict [(''Records'', JList [JDict [(''s3'', JNull)]])]) =
       (Inl (TypeError (py_repr ''NoneType'' @ '' object is not subscriptable'')), [])
   \<and> field [''s3'', ''bucket'', ''name'']
        (JDict [(''s3'', JDict [(''bucket'', JStr ''uploads''), (''object'', JDict [])])]) = None
   \<and> field [''s3'', ''object'', ''key'']
        (JDict [(''s3'', JDict [(''bucket'', JStr ''uploads''), (''object'', JDict [])])]) = None
   \<and> lambda_handler example_world notifying_env
        (JDict [(''Records'',
           JList [JDict [(''s3'', JDict [(''bucket'', JStr ''uploads''),
                                         (''object'', JDict [])])]])]) =
       (Inl (TypeError (''string indices must be integers, not '' @ py_repr ''str'')), [])"
  by (simp add: lambda_handler_def parse_event_def raise_def)

subsection \<open>Keys that are not images\<close>

text \<open>
  C2: for a well-formed event whose key, lowercased, ends in none of \<open>.png\<close>,
  \<open>.jpg\<close>, \<open>.jpeg\<close>, \<open>.gif\<close>, \<open>.bmp\<close>, the handler returns status 200 with the
  body \<open>Not an image file, skipping processing\<close> and its list of calls is empty: no
  get, no put, no publish.
\<close>

theorem other_extension_skipped:
  assumes "parse_event event = Inr (bucket, JStr key)"
    and "\<not> (\<exists>e\<in>set [''.png'', ''.jpg'', ''.jpeg'', ''.gif'', ''.bmp'']. \<exists>p. lower key = p @ e)"
  shows "lambda_handler w env event =
           (Inr \<lparr>statusCode = 200, body = Text ''Not an image file, skipping processing''\<rparr>, [])"
proof -
  have "\<not> endswith_any (lower key) image_extensions"
    using assms(2) unfolding endswith_any_iff image_extensions_def .
  with assms(1) show ?thesis
    by (simp add: lambda_handler_def ret_def)
qed

text \<open>A text file, whatever the services and the environment are.\<close>

theorem other_extension_skipped_witness:
  "lambda_handler example_world notifying_env (s3_event ''uploads'' ''notes/README.TXT'') =
     (Inr \<lparr>statusCode = 200, body = Text ''Not an image file, skipping processing''\<rparr>, [])"
proof -
  have "\<not> endswith_any (lower ''notes/README.TXT'') image_extensions"
    by (simp add: endswith_any_def endswith_def lower_def lower_char_def image_extensions_def)
  then have "\<not> (\<exists>e\<in>set [''.png'', ''.jpg'', ''.jpeg'', ''.gif'', ''.bmp''].
                \<exists>p. lower ''notes/README.TXT'' = p @ e)"
    unfolding endswith_any_iff image_extensions_def .
  from other_extension_skipped[OF parse_s3_event this]
  show ?thesis .
qed

subsection \<open>The failure notification\<close>

text \<open>
  C3, as amended: for a well-formed event with an image key, when notifications are
  enabled, \<open>SNS_TOPIC_ARN\<close> is set and the fetch, decode, resize, convert or encode step
  raises \<open>e\<close>, or all of them answer and the upload raises \<open>e\<close>, the handler makes
  exactly one publish call, after every other call, with the subject
  \<open>Image Processing Failed\<close> and the message \<open>Error processing image <key>: <str(e)>\<close>.
  If that publish answers, \<open>e\<close> reaches the caller; if the publish raises, its own
  exception reaches the caller in place of \<open>e\<close>.
\<close>

theorem failure_published_once:
  assumes "parse_event event = Inr (bucket, JStr key)"
    and "endswith_any (lower key) image_extensions"
    and "send_notifications env"
    and "env ''SNS_TOPIC_ARN'' = Some topic"
    and "transform w bucket key = (Inl e, t)
       \<or> (\<exists>d t0 dst. transform w bucket key = (Inr d, t0)
             \<and> env ''DESTINATION_BUCKET'' = Some dst
             \<and> s3_put_object w dst (new_key key) d ''image/jpeg'' ''STANDARD_IA'' = Inl e
             \<and> t = t0 @ [PutObject dst (new_key key) d ''image/jpeg'' ''STANDARD_IA''])"
  shows "lambda_handler w env event =
           ((case sns_publish w topic ''Image Processing Failed'' (error_msg key e) of
               Inl e' \<Rightarrow> Inl e' | Inr u \<Rightarrow> Inl e),
            t @ [Publish topic ''Image Processing Failed'' (error_msg key e)])
       \<and> filter is_publish (snd (lambda_handler w env event)) =
           [Publish topic ''Image Processing Failed'' (error_msg key e)]
       \<and> error_msg key e = ''Error processing image '' @ key @ '': '' @ exn_str e"
proof -
  have p: "process w env bucket key = (Inl e, t)" and q: "filter is_publish t = []"
    using assms(5) transform_no_publish[of w bucket key]
    by (auto simp: process_transform_fails process_put_fails)
  have "lambda_handler w env event =
          ((case sns_publish w topic ''Image Processing Failed'' (error_msg key e) of
              Inl e' \<Rightarrow> Inl e' | Inr u \<Rightarrow> Inl e),
           t @ [Publish topic ''Image Processing Failed'' (error_msg key e)])"
    by (simp add: handler_image[OF assms(1,2)] p on_error_topic[OF assms(3,4)])
  with q show ?thesis
    by (simp add: error_msg_def)
qed

text \<open>An object that the store does not hold, with a notifier that answers.\<close>

theorem failure_published_once_witness:
  "lambda_handler example_world notifying_env (s3_event ''uploads'' ''photos/missing.png'') =
     (Inl (Error ''NoSuchKey''),
      [GetObject (JStr ''uploads'') ''photos/missing.png'',
       Publish ''arn:aws:sns:topic'' ''Image Processing Failed''
         ''Error processing image photos/missing.png: NoSuchKey''])"
proof -
  have sn: "send_notifications notifying_env"
    by (simp add: send_notifications_examples)
  have topic: "notifying_env ''SNS_TOPIC_ARN'' = Some ''arn:aws:sns:topic''"
    by (simp add: notifying_env_def)
  from failure_published_once[OF parse_s3_event image_key_missing sn topic
      disjI1[OF transform_missing(1)]]
  show ?thesis
    by (simp add: example_world_def error_msg_def)
qed

text \<open>
  The same event with a notifier that refuses the publish: the fetch raised
  \<open>NoSuchKey\<close>, and the caller gets the notifier's \<open>AuthorizationError\<close>. So the
  original error is not propagated on every failure.
\<close>

theorem failure_publish_masks_error:
  "s3_get_object sns_down_world (JStr ''uploads'') ''photos/missing.png'' =
     Inl (Error ''NoSuchKey'')
   \<and> send_notifications notifying_env
   \<and> lambda_handler sns_down_world notifying_env (s3_event ''uploads'' ''photos/missing.png'') =
       (Inl (Error ''AuthorizationError''),
        [GetObject (JStr ''uploads'') ''photos/missing.png'',
         Publish ''arn:aws:sns:topic'' ''Image Processing Failed''
           ''Error processing image photos/missing.png: NoSuchKey''])
   \<and> fst (lambda_handler sns_down_world notifying_env
            (s3_event ''uploads'' ''photos/missing.png'')) \<noteq> Inl (Error ''NoSuchKey'')"
proof -
  have sn: "send_notifications notifying_env"
    by (simp add: send_notifications_examples)
  have topic: "notifying_env ''SNS_TOPIC_ARN'' = Some ''arn:aws:sns:topic''"
    by (simp add: notifying_env_def)
  have "lambda_handler sns_down_world notifying_env (s3_event ''uploads'' ''photos/missing.png'') =
       (Inl (Error ''AuthorizationError''),
        [GetObject (JStr ''uploads'') ''photos/missing.png'',
         Publish ''arn:aws:sns:topic'' ''Image Processing Failed''
           ''Error processing image photos/missing.png: NoSuchKey''])"
  proof -
    have pub: "sns_publish sns_down_world ''arn:aws:sns:topic'' ''Image Processing Failed''
                 (error_msg ''photos/missing.png'' (Error ''NoSuchKey'')) =
               Inl (Error ''AuthorizationError'')"
      by (simp add: sns_down_world_def)
    show ?thesis
      by (simp add: handler_image[OF parse_s3_event image_key_missing]
            process_transform_fails[OF transform_missing(2)] on_error_topic[OF sn topic] pub)
         (simp add: error_msg_def)
  qed
  moreover have "s3_get_object sns_down_world (JStr ''uploads'') ''photos/missing.png'' =
     Inl (Error ''NoSuchKey'')"
    by (simp add: example_defs)
  ultimately show ?thesis
    using sn by simp
qed

subsection \<open>The destination key\<close>

text \<open>
  C4: whenever the handler returns for an image key, it has made exactly one upload, to
  the bucket named by \<open>DESTINATION_BUCKET\<close>, under the key
  \<open>"thumbnails/" + splitext(key)[0] + ".jpg"\<close>, and the result it returns holds that
  same key as \<open>processed_key\<close>. The extension of the source key is not part of it.
\<close>

theorem destination_key:
  assumes "parse_event event = Inr (bucket, JStr key)"
    and "endswith_any (lower key) image_extensions"
    and "lambda_handler w env event = (Inr res, t)"
  shows "\<exists>dst d. env ''DESTINATION_BUCKET'' = Some dst
           \<and> filter is_put t =
               [PutObject dst (''thumbnails/'' @ fst (splitext key) @ ''.jpg'') d
                  ''image/jpeg'' ''STANDARD_IA'']
           \<and> res = \<lparr>statusCode = 200,
                    body = JsonDumps [(''message'', ''Image processed successfully''),
                                      (''original_key'', key),
                                      (''processed_key'',
                                       ''thumbnails/'' @ fst (splitext key) @ ''.jpg'')]\<rparr>"
proof -
  obtain r t' where pr: "process w env bucket key = (r, t')"
    by (cases "process w env bucket key")
  have "r = Inr res \<and> t' = t"
  proof (cases r)
    case (Inl e)
    with assms pr on_error_raises[of w env key e] show ?thesis
      by (auto simp: handler_image)
  next
    case (Inr x)
    with assms pr show ?thesis
      by (simp add: handler_image)
  qed
  with pr have "process w env bucket key = (Inr res, t)"
    by simp
  from process_returns[OF this] show ?thesis
    by (simp add: new_key_def)
qed

text \<open>\<open>photos/vacation.PNG\<close> goes to \<open>thumbnails/photos/vacation.jpg\<close>.\<close>

theorem destination_key_witness:
  "\<exists>dst d. example_env ''DESTINATION_BUCKET'' = Some dst
     \<and> filter is_put (snd (lambda_handler example_world example_env
                              (s3_event ''uploads'' ''photos/vacation.PNG''))) =
         [PutObject dst ''thumbnails/photos/vacation.jpg'' d ''image/jpeg'' ''STANDARD_IA'']
     \<and> fst (lambda_handler example_world example_env
               (s3_event ''uploads'' ''photos/vacation.PNG'')) =
         Inr \<lparr>statusCode = 200,
              body = JsonDumps [(''message'', ''Image processed successfully''),
                                (''original_key'', ''photos/vacation.PNG''),
                                (''processed_key'', ''thumbnails/photos/vacation.jpg'')]\<rparr>"
proof -
  have dst: "example_env ''DESTINATION_BUCKET'' = Some ''thumbs''"
    by (simp add: example_env_def)
  have put: "s3_put_object example_world ''thumbs'' (new_key ''photos/vacation.PNG'')
               ''JPEG:png-pixels'' ''image/jpeg'' ''STANDARD_IA'' = Inr ()"
    by (simp add: example_world_def)
  have off: "\<not> send_notifications example_env"
    by (simp add: send_notifications_examples)
  obtain res t where run:
    "lambda_handler example_world example_env (s3_event ''uploads'' ''photos/vacation.PNG'')
       = (Inr res, t)"
    by (simp add: handler_image[OF parse_s3_event image_key_vacation]
          process_put_silent[where env = example_env, OF transform_vacation(1) dst put off])
  from destination_key[OF parse_s3_event image_key_vacation run]
  show ?thesis
    by (simp add: run splitext_vacation)
qed

subsection \<open>Re-encoding and upload parameters\<close>

text \<open>
  C6: for an object that is fetched, decoded and resized, the calls of the handler begin
  with the fetch, the decoding and the resize to the bound 150 by 150. If the format of
  the decoded image is not JPEG, the next call converts the resized image to \<open>RGB\<close>
  and, when the conversion answers, the one after it saves the converted image as JPEG;
  if the format is JPEG, the next call saves the resized image in that format. Both save
  with \<open>optimize=True\<close> and \<open>quality=85\<close>. When the save answers and
  \<open>DESTINATION_BUCKET\<close> is set, the next call is the upload of what the save returned,
  with the content type \<open>image/jpeg\<close> and the storage class \<open>STANDARD_IA\<close>, and it is
  the only upload. Every upload the handler makes has that content type and storage
  class, and its body is what such a save returned.
\<close>

theorem reencoded_as_jpeg:
  assumes "parse_event event = Inr (bucket, JStr key)"
    and "endswith_any (lower key) image_extensions"
    and "s3_get_object w bucket key = Inr content"
    and "Image_open w content = Inr im"
    and "Image_thumbnail w (150, 150) im = Inr im'"
  shows "(img_format im \<noteq> Some ''JPEG'' \<longrightarrow>
            (\<exists>rest. snd (lambda_handler w env event) =
                      GetObject bucket key # ImageOpen content # Thumbnail (150, 150) im
                      # Convert ''RGB'' (im'\<lparr>img_format := img_format im\<rparr>) # rest
                  \<and> (\<forall>rgb. Image_convert w ''RGB'' (im'\<lparr>img_format := img_format im\<rparr>) = Inr rgb
                        \<longrightarrow> (\<exists>rest'. rest = Save rgb ''JPEG'' True 85 # rest'))))
       \<and> (img_format im = Some ''JPEG'' \<longrightarrow>
            (\<exists>rest. snd (lambda_handler w env event) =
                      GetObject bucket key # ImageOpen content # Thumbnail (150, 150) im
                      # Save (im'\<lparr>img_format := Some ''JPEG''\<rparr>) ''JPEG'' True 85 # rest))
       \<and> (\<forall>dst rgb d.
             img_format im \<noteq> Some ''JPEG''
             \<and> Image_convert w ''RGB'' (im'\<lparr>img_format := img_format im\<rparr>) = Inr rgb
             \<and> Image_save w rgb ''JPEG'' True 85 = Inr d
             \<and> env ''DESTINATION_BUCKET'' = Some dst \<longrightarrow>
            (\<exists>rest. snd (lambda_handler w env event) =
                      GetObject bucket key # ImageOpen content # Thumbnail (150, 150) im
                      # Convert ''RGB'' (im'\<lparr>img_format := img_format im\<rparr>)
                      # Save rgb ''JPEG'' True 85
                      # PutObject dst (new_key key) d ''image/jpeg'' ''STANDARD_IA'' # rest
                  \<and> filter is_put rest = []))
       \<and> (\<forall>dst d.
             img_format im = Some ''JPEG''
             \<and> Image_save w (im'\<lparr>img_format := Some ''JPEG''\<rparr>) ''JPEG'' True 85 = Inr d
             \<and> env ''DESTINATION_BUCKET'' = Some dst \<longrightarrow>
            (\<exists>rest. snd (lambda_handler w env event) =
                      GetObject bucket key # ImageOpen content # Thumbnail (150, 150) im
                      # Save (im'\<lparr>img_format := Some ''JPEG''\<rparr>) ''JPEG'' True 85
                      # PutObject dst (new_key key) d ''image/jpeg'' ''STANDARD_IA'' # rest
                  \<and> filter is_put rest = []))
       \<and> (\<forall>dst k d ct sc. PutObject dst k d ct sc \<in> set (snd (lambda_handler w env event)) \<longrightarrow>
            ct = ''image/jpeg'' \<and> sc = ''STANDARD_IA''
            \<and> (\<exists>i. Save i ''JPEG'' True 85 \<in> set (snd (lambda_handler w env event))
                   \<and> Image_save w i ''JPEG'' True 85 = Inr d))"
proof -
  from handler_trace_prefix[OF assms(1,2), of w env] obtain rest0 where
    pre: "snd (lambda_handler w env event) = snd (transform w bucket key) @ rest0"
    by auto
  note td = transform_decoded[OF assms(3-5)]
  have 1: "img_format im \<noteq> Some ''JPEG'' \<longrightarrow>
            (\<exists>rest. snd (lambda_handler w env event) =
                      GetObject bucket key # ImageOpen content # Thumbnail (150, 150) im
                      # Convert ''RGB'' (im'\<lparr>img_format := img_format im\<rparr>) # rest
                  \<and> (\<forall>rgb. Image_convert w ''RGB'' (im'\<lparr>img_format := img_format im\<rparr>) = Inr rgb
                        \<longrightarrow> (\<exists>rest'. rest = Save rgb ''JPEG'' True 85 # rest')))"
    by (simp add: pre td split: sum.splits)
  have 2: "img_format im = Some ''JPEG'' \<longrightarrow>
            (\<exists>rest. snd (lambda_handler w env event) =
                      GetObject bucket key # ImageOpen content # Thumbnail (150, 150) im
                      # Save (im'\<lparr>img_format := Some ''JPEG''\<rparr>) ''JPEG'' True 85 # rest)"
    by (simp add: pre td)
  have 3: "\<exists>rest. snd (lambda_handler w env event) =
                      GetObject bucket key # ImageOpen content # Thumbnail (150, 150) im
                      # Convert ''RGB'' (im'\<lparr>img_format := img_format im\<rparr>)
                      # Save rgb ''JPEG'' True 85
                      # PutObject dst (new_key key) d ''image/jpeg'' ''STANDARD_IA'' # rest
                  \<and> filter is_put rest = []"
    if "img_format im \<noteq> Some ''JPEG''"
      and "Image_convert w ''RGB'' (im'\<lparr>img_format := img_format im\<rparr>) = Inr rgb"
      and "Image_save w rgb ''JPEG'' True 85 = Inr d"
      and "env ''DESTINATION_BUCKET'' = Some dst" for dst rgb d
  proof -
    from that(1-3) have "transform w bucket key =
        (Inr d, [GetObject bucket key, ImageOpen content, Thumbnail (150, 150) im,
                 Convert ''RGB'' (im'\<lparr>img_format := img_format im\<rparr>),
                 Save rgb ''JPEG'' True 85])"
      by (simp add: td)
    from handler_uploads[where env = env, OF assms(1,2) this that(4)] show ?thesis
      by simp
  qed
  have 4: "\<exists>rest. snd (lambda_handler w env event) =
                      GetObject bucket key # ImageOpen content # Thumbnail (150, 150) im
                      # Save (im'\<lparr>img_format := Some ''JPEG''\<rparr>) ''JPEG'' True 85
                      # PutObject dst (new_key key) d ''image/jpeg'' ''STANDARD_IA'' # rest
                  \<and> filter is_put rest = []"
    if "img_format im = Some ''JPEG''"
      and "Image_save w (im'\<lparr>img_format := Some ''JPEG''\<rparr>) ''JPEG'' True 85 = Inr d"
      and "env ''DESTINATION_BUCKET'' = Some dst" for dst d
  proof -
    from that(1,2) have "transform w bucket key =
        (Inr d, [GetObject bucket key, ImageOpen content, Thumbnail (150, 150) im,
                 Save (im'\<lparr>img_format := Some ''JPEG''\<rparr>) ''JPEG'' True 85])"
      by (simp add: td)
    from handler_uploads[where env = env, OF assms(1,2) this that(3)] show ?thesis
      by simp
  qed
  have 5: "ct = ''image/jpeg'' \<and> sc = ''STANDARD_IA''
            \<and> (\<exists>i. Save i ''JPEG'' True 85 \<in> set (snd (lambda_handler w env event))
                   \<and> Image_save w i ''JPEG'' True 85 = Inr d)"
    if "PutObject dst k d ct sc \<in> set (snd (lambda_handler w env event))" for dst k d ct sc
  proof -
    from that have mem:
      "PutObject dst k d ct sc \<in> set (filter is_put (snd (lambda_handler w env event)))"
      by simp
    obtain r t where tr: "transform w bucket key = (r, t)"
      by (cases "transform w bucket key")
    from mem tr have "r = Inr d \<and> ct = ''image/jpeg'' \<and> sc = ''STANDARD_IA''"
      by (cases r; cases "env ''DESTINATION_BUCKET''")
         (auto simp: handler_puts[OF assms(1,2)])
    then have r: "r = Inr d" and eq: "ct = ''image/jpeg''" "sc = ''STANDARD_IA''"
      by simp_all
    from transform_returns[OF tr[unfolded r]] obtain i where
      i: "Save i ''JPEG'' True 85 \<in> set t" "Image_save w i ''JPEG'' True 85 = Inr d"
      by auto
    from i(1) pre tr have "Save i ''JPEG'' True 85 \<in> set (snd (lambda_handler w env event))"
      by simp
    with i(2) eq show ?thesis
      by auto
  qed
  from 1 2 3 4 5 show ?thesis
    by blast
qed

text \<open>
  A PNG of 800 by 600 and a JPEG of 120 by 90, with notifications disabled: the upload
  is the last call of each run.
\<close>

theorem reencoded_as_jpeg_witness:
  "(\<exists>rest. snd (lambda_handler example_world example_env
                  (s3_event ''uploads'' ''photos/vacation.PNG'')) =
       GetObject (JStr ''uploads'') ''photos/vacation.PNG'' # ImageOpen ''png-bytes''
       # Thumbnail (150, 150) png_image
       # Convert ''RGB'' (png_image\<lparr>img_size := (150, 113)\<rparr>)
       # Save (png_image\<lparr>img_format := None, img_mode := ''RGB'', img_size := (150, 113)\<rparr>)
           ''JPEG'' True 85
       # PutObject ''thumbs'' ''thumbnails/photos/vacation.jpg'' ''JPEG:png-pixels''
           ''image/jpeg'' ''STANDARD_IA''
       # rest)
   \<and> (\<exists>rest. snd (lambda_handler example_world example_env
                  (s3_event ''uploads'' ''photos/small.jpg'')) =
       GetObject (JStr ''uploads'') ''photos/small.jpg'' # ImageOpen ''jpeg-bytes''
       # Thumbnail (150, 150) jpeg_image
       # Save jpeg_image ''JPEG'' True 85
       # PutObject ''thumbs'' ''thumbnails/photos/small.jpg'' ''JPEG:jpeg-pixels''
           ''image/jpeg'' ''STANDARD_IA''
       # rest)"
proof -
  have g1: "s3_get_object example_world (JStr ''uploads'') ''photos/vacation.PNG'' = Inr ''png-bytes''"
    and g2: "s3_get_object example_world (JStr ''uploads'') ''photos/small.jpg'' = Inr ''jpeg-bytes''"
    and o1: "Image_open example_world ''png-bytes'' = Inr png_image"
    and o2: "Image_open example_world ''jpeg-bytes'' = Inr jpeg_image"
    and t1: "Image_thumbnail example_world (150, 150) png_image =
               Inr (png_image\<lparr>img_size := (150, 113)\<rparr>)"
    and t2: "Image_thumbnail example_world (150, 150) jpeg_image = Inr jpeg_image"
    and c1: "Image_convert example_world ''RGB'' (png_image\<lparr>img_size := (150, 113)\<rparr>) =
               Inr (png_image\<lparr>img_format := None, img_mode := ''RGB'', img_size := (150, 113)\<rparr>)"
    and s1: "Image_save example_world
               (png_image\<lparr>img_format := None, img_mode := ''RGB'', img_size := (150, 113)\<rparr>)
               ''JPEG'' True 85 = Inr ''JPEG:png-pixels''"
    and s2: "Image_save example_world jpeg_image ''JPEG'' True 85 = Inr ''JPEG:jpeg-pixels''"
    and dst: "example_env ''DESTINATION_BUCKET'' = Some ''thumbs''"
    by (simp_all add: example_defs)
  have f1: "img_format png_image \<noteq> Some ''JPEG''" and f2: "img_format jpeg_image = Some ''JPEG''"
    by (simp_all add: example_defs)
  have u1: "png_image\<lparr>img_size := (150, 113), img_format := img_format png_image\<rparr> =
            png_image\<lparr>img_size := (150, 113)\<rparr>"
    and u2: "jpeg_image\<lparr>img_format := Some ''JPEG''\<rparr> = jpeg_image"
    by (simp_all add: example_defs)
  have k2: "new_key ''photos/small.jpg'' = ''thumbnails/photos/small.jpg''"
    by (simp add: string_defs)
  from reencoded_as_jpeg[where env = example_env,
      OF parse_s3_event[of "''uploads''" "''photos/vacation.PNG''"] image_key_vacation g1 o1 t1]
  have a: "\<exists>rest. snd (lambda_handler example_world example_env
                  (s3_event ''uploads'' ''photos/vacation.PNG'')) =
       GetObject (JStr ''uploads'') ''photos/vacation.PNG'' # ImageOpen ''png-bytes''
       # Thumbnail (150, 150) png_image
       # Convert ''RGB'' (png_image\<lparr>img_size := (150, 113)\<rparr>)
       # Save (png_image\<lparr>img_format := None, img_mode := ''RGB'', img_size := (150, 113)\<rparr>)
           ''JPEG'' True 85
       # PutObject ''thumbs'' ''thumbnails/photos/vacation.jpg'' ''JPEG:png-pixels''
           ''image/jpeg'' ''STANDARD_IA''
       # rest"
    using f1 c1 s1 dst unfolding u1 new_key_vacation by blast
  from reencoded_as_jpeg[where env = example_env,
      OF parse_s3_event[of "''uploads''" "''photos/small.jpg''"] image_key_small g2 o2 t2]
  have b: "\<exists>rest. snd (lambda_handler example_world example_env
                  (s3_event ''uploads'' ''photos/small.jpg'')) =
       GetObject (JStr ''uploads'') ''photos/small.jpg'' # ImageOpen ''jpeg-bytes''
       # Thumbnail (150, 150) jpeg_image
       # Save jpeg_image ''JPEG'' True 85
       # PutObject ''thumbs'' ''thumbnails/photos/small.jpg'' ''JPEG:jpeg-pixels''
           ''image/jpeg'' ''STANDARD_IA''
       # rest"
    using f2 s2 dst unfolding u2 k2 by blast
  from a b show ?thesis
    by blast
qed

subsection \<open>Notifications disabled\<close>

text \<open>
  C7: unless the value of \<open>SEND_NOTIFICATIONS\<close> (\<open>false\<close> when the variable is unset),
  lowercased, is exactly \<open>true\<close>, the handler makes no publish call, whatever the event
  and whatever the services answer: on the success path, on a skip, on a malformed event
  and on a failure.
\<close>

theorem no_publish_unless_enabled:
  assumes "lower (case env ''SEND_NOTIFICATIONS'' of None \<Rightarrow> ''false'' | Some v \<Rightarrow> v) \<noteq> ''true''"
  shows "filter is_publish (snd (lambda_handler w env event)) = []"
proof -
  have off: "\<not> send_notifications env"
    using assms by (simp add: send_notifications_def environ_get_def)
  show ?thesis
  proof (cases "parse_event event")
    case (Inl e)
    then show ?thesis
      by (simp add: lambda_handler_def ret_def raise_def)
  next
    case (Inr p)
    obtain bucket key where p: "p = (bucket, key)"
      by (cases p)
    show ?thesis
    proof (cases key)
      case (JStr k)
      show ?thesis
      proof (cases "endswith_any (lower k) image_extensions")
        case True
        obtain r t where pr: "process w env bucket k = (r, t)"
          by (cases "process w env bucket k")
        have "filter is_publish t = []"
          using process_silent[OF off, of w bucket k] pr by simp
        with pr Inr p JStr True off show ?thesis
          by (cases r) (simp_all add: lambda_handler_def on_error_off)
      next
        case False
        with Inr p JStr show ?thesis
          by (simp add: lambda_handler_def ret_def)
      qed
    qed (use Inr p in \<open>simp_all add: lambda_handler_def raise_def\<close>)
  qed
qed

text \<open>
  The variable unset, and set to \<open>false\<close>, \<open>1\<close>, \<open>yes\<close> and \<open>True\<close> with a space
  after it; the third on an object that the store does not hold.
\<close>

theorem no_publish_unless_enabled_witness:
  "filter is_publish (snd (lambda_handler example_world example_env
      (s3_event ''uploads'' ''photos/vacation.PNG''))) = []
   \<and> filter is_publish (snd (lambda_handler example_world
        (notifying_env(''SEND_NOTIFICATIONS'' \<mapsto> ''false''))
        (s3_event ''uploads'' ''photos/vacation.PNG''))) = []
   \<and> filter is_publish (snd (lambda_handler example_world
        (notifying_env(''SEND_NOTIFICATIONS'' \<mapsto> ''1''))
        (s3_event ''uploads'' ''photos/missing.png''))) = []
   \<and> filter is_publish (snd (lambda_handler example_world
        (notifying_env(''SEND_NOTIFICATIONS'' \<mapsto> ''yes''))
        (s3_event ''uploads'' ''photos/vacation.PNG''))) = []
   \<and> filter is_publish (snd (lambda_handler example_world
        (notifying_env(''SEND_NOTIFICATIONS'' \<mapsto> ''True ''))
        (s3_event ''uploads'' ''photos/vacation.PNG''))) = []"
proof -
  have 1: "lower (case example_env ''SEND_NOTIFICATIONS'' of None \<Rightarrow> ''false'' | Some v \<Rightarrow> v)
             \<noteq> ''true''"
    by (simp add: example_defs string_defs)
  have 2: "lower (case (notifying_env(''SEND_NOTIFICATIONS'' \<mapsto> ''false'')) ''SEND_NOTIFICATIONS''
                  of None \<Rightarrow> ''false'' | Some v \<Rightarrow> v) \<noteq> ''true''"
    by (simp add: string_defs)
  have 3: "lower (case (notifying_env(''SEND_NOTIFICATIONS'' \<mapsto> ''1'')) ''SEND_NOTIFICATIONS''
                  of None \<Rightarrow> ''false'' | Some v \<Rightarrow> v) \<noteq> ''true''"
    by (simp add: string_defs)
  have 4: "lower (case (notifying_env(''SEND_NOTIFICATIONS'' \<mapsto> ''yes'')) ''SEND_NOTIFICATIONS''
                  of None \<Rightarrow> ''false'' | Some v \<Rightarrow> v) \<noteq> ''true''"
    by (simp add: string_defs)
  have 5: "lower (case (notifying_env(''SEND_NOTIFICATIONS'' \<mapsto> ''True '')) ''SEND_NOTIFICATIONS''
                  of None \<Rightarrow> ''false'' | Some v \<Rightarrow> v) \<noteq> ''true''"
    by (simp add: string_defs)
  from no_publish_unless_enabled[where env = example_env, OF 1] no_publish_unless_enabled[where env = "notifying_env(''SEND_NOTIFICATIONS'' \<mapsto> ''false'')", OF 2]
    no_publish_unless_enabled[where env = "notifying_env(''SEND_NOTIFICATIONS'' \<mapsto> ''1'')", OF 3] no_publish_unless_enabled[where env = "notifying_env(''SEND_NOTIFICATIONS'' \<mapsto> ''yes'')", OF 4]
    no_publish_unless_enabled[where env = "notifying_env(''SEND_NOTIFICATIONS'' \<mapsto> ''True '')", OF 5]
  show ?thesis
    by blast
qed

subsection \<open>A missing destination bucket\<close>

text \<open>
  C9, as amended: for a well-formed event with an image key and \<open>DESTINATION_BUCKET\<close>
  unset, the handler first runs the transform, beginning with the fetch, and makes no
  upload; an exception reaches the caller, so no result is returned, neither a 400 nor
  any other. When the transform answers, the lookup of the variable raises \<open>KeyError\<close>
  after the calls of the transform, and the failure path takes it: with notifications
  disabled it reaches the caller; with notifications enabled and \<open>SNS_TOPIC_ARN\<close> set,
  one failure publish is made for it, and it reaches the caller if that publish answers,
  while the exception of the publish reaches the caller in its place if the publish
  raises; with notifications enabled and \<open>SNS_TOPIC_ARN\<close> unset, the \<open>KeyError\<close> of
  that second lookup reaches the caller. When the transform raises, its exception takes
  the same path.
\<close>

theorem missing_destination_bucket:
  assumes "parse_event event = Inr (bucket, JStr key)"
    and "endswith_any (lower key) image_extensions"
    and "env ''DESTINATION_BUCKET'' = None"
  shows "(\<exists>e. fst (lambda_handler w env event) = Inl e)
       \<and> filter is_put (snd (lambda_handler w env event)) = []
       \<and> (\<exists>rest. snd (lambda_handler w env event) = GetObject bucket key # rest)
       \<and> (\<forall>d t. transform w bucket key = (Inr d, t) \<longrightarrow>
            lambda_handler w env event =
              (if \<not> send_notifications env
               then (Inl (KeyError (py_repr ''DESTINATION_BUCKET'')), t)
               else case env ''SNS_TOPIC_ARN'' of
                 None \<Rightarrow> (Inl (KeyError (py_repr ''SNS_TOPIC_ARN'')), t)
               | Some topic \<Rightarrow>
                   ((case sns_publish w topic ''Image Processing Failed''
                           (error_msg key (KeyError (py_repr ''DESTINATION_BUCKET''))) of
                       Inl e' \<Rightarrow> Inl e'
                     | Inr u \<Rightarrow> Inl (KeyError (py_repr ''DESTINATION_BUCKET''))),
                    t @ [Publish topic ''Image Processing Failed''
                           (error_msg key (KeyError (py_repr ''DESTINATION_BUCKET'')))])))
       \<and> (\<forall>e t. transform w bucket key = (Inl e, t) \<longrightarrow>
            lambda_handler w env event =
              (if \<not> send_notifications env then (Inl e, t)
               else case env ''SNS_TOPIC_ARN'' of
                 None \<Rightarrow> (Inl (KeyError (py_repr ''SNS_TOPIC_ARN'')), t)
               | Some topic \<Rightarrow>
                   ((case sns_publish w topic ''Image Processing Failed'' (error_msg key e) of
                       Inl e' \<Rightarrow> Inl e' | Inr u \<Rightarrow> Inl e),
                    t @ [Publish topic ''Image Processing Failed'' (error_msg key e)])))"
proof -
  have h: "lambda_handler w env event = try_except (process w env bucket key) (on_error w env key)"
    by (rule handler_image[OF assms(1,2)])
  have run: "lambda_handler w env event =
               (fst (on_error w env key e), t @ snd (on_error w env key e))"
    if "transform w bucket key = (r, t)"
      and "e = (case r of Inl e' \<Rightarrow> e' | Inr d \<Rightarrow> KeyError (py_repr ''DESTINATION_BUCKET''))"
    for r t e
    using that assms(3)
    by (cases r) (simp_all add: h process_transform_fails process_no_bucket)
  have 4: "lambda_handler w env event =
             (if \<not> send_notifications env then (Inl e, t)
              else case env ''SNS_TOPIC_ARN'' of
                None \<Rightarrow> (Inl (KeyError (py_repr ''SNS_TOPIC_ARN'')), t)
              | Some topic \<Rightarrow>
                  ((case sns_publish w topic ''Image Processing Failed'' (error_msg key e) of
                      Inl e' \<Rightarrow> Inl e' | Inr u \<Rightarrow> Inl e),
                   t @ [Publish topic ''Image Processing Failed'' (error_msg key e)]))"
    if "transform w bucket key = (r, t)"
      and "e = (case r of Inl e' \<Rightarrow> e' | Inr d \<Rightarrow> KeyError (py_repr ''DESTINATION_BUCKET''))"
    for r t e
    by (cases "send_notifications env"; cases "env ''SNS_TOPIC_ARN''")
       (simp_all add: run[OF that] on_error_off on_error_no_topic on_error_topic)
  obtain r t where tr: "transform w bucket key = (r, t)"
    by (cases "transform w bucket key")
  have 1: "\<exists>e. fst (lambda_handler w env event) = Inl e"
    using on_error_raises[of w env key] by (simp add: run[OF tr refl])
  have 2: "filter is_put (snd (lambda_handler w env event)) = []"
    using assms(3) by (cases r) (simp_all add: handler_puts[OF assms(1,2)] tr)
  have 3: "\<exists>rest. snd (lambda_handler w env event) = GetObject bucket key # rest"
    using transform_starts[of w bucket key] handler_trace_prefix[OF assms(1,2), of w env]
    by auto
  have 5: "lambda_handler w env event =
              (if \<not> send_notifications env
               then (Inl (KeyError (py_repr ''DESTINATION_BUCKET'')), t)
               else case env ''SNS_TOPIC_ARN'' of
                 None \<Rightarrow> (Inl (KeyError (py_repr ''SNS_TOPIC_ARN'')), t)
               | Some topic \<Rightarrow>
                   ((case sns_publish w topic ''Image Processing Failed''
                           (error_msg key (KeyError (py_repr ''DESTINATION_BUCKET''))) of
                       Inl e' \<Rightarrow> Inl e'
                     | Inr u \<Rightarrow> Inl (KeyError (py_repr ''DESTINATION_BUCKET''))),
                    t @ [Publish topic ''Image Processing Failed''
                           (error_msg key (KeyError (py_repr ''DESTINATION_BUCKET'')))]))"
    if "transform w bucket key = (Inr d, t)" for d t
    using 4[OF that] by simp
  have 6: "lambda_handler w env event =
              (if \<not> send_notifications env then (Inl e, t)
               else case env ''SNS_TOPIC_ARN'' of
                 None \<Rightarrow> (Inl (KeyError (py_repr ''SNS_TOPIC_ARN'')), t)
               | Some topic \<Rightarrow>
                   ((case sns_publish w topic ''Image Processing Failed'' (error_msg key e) of
                       Inl e' \<Rightarrow> Inl e' | Inr u \<Rightarrow> Inl e),
                    t @ [Publish topic ''Image Processing Failed'' (error_msg key e)]))"
    if "transform w bucket key = (Inl e, t)" for e t
    using 4[OF that] by simp
  from 1 2 3 5 6 show ?thesis
    by blast
qed

text \<open>With notifications enabled and a notifier that answers, and with an empty environment.\<close>

theorem missing_destination_bucket_witness:
  "lambda_handler example_world env_without_bucket (s3_event ''uploads'' ''photos/vacation.PNG'') =
     (Inl (KeyError (py_repr ''DESTINATION_BUCKET'')),
      vacation_calls
      @ [Publish ''arn:aws:sns:topic'' ''Image Processing Failed''
           (''Error processing image photos/vacation.PNG: '' @ py_repr ''DESTINATION_BUCKET'')])
   \<and> lambda_handler example_world Map.empty (s3_event ''uploads'' ''photos/vacation.PNG'') =
     (Inl (KeyError (py_repr ''DESTINATION_BUCKET'')), vacation_calls)"
proof -
  have nb: "env_without_bucket ''DESTINATION_BUCKET'' = None"
    "Map.empty ''DESTINATION_BUCKET'' = None"
    by (simp_all add: env_without_bucket_def)
  have sn: "send_notifications env_without_bucket"
    by (simp add: send_notifications_examples)
  have topic: "env_without_bucket ''SNS_TOPIC_ARN'' = Some ''arn:aws:sns:topic''"
    by (simp add: env_without_bucket_def)
  have off: "\<not> send_notifications Map.empty"
    by (simp add: send_notifications_def environ_get_def string_defs)
  have pub: "sns_publish example_world ''arn:aws:sns:topic'' ''Image Processing Failed'' m =
             Inr ()" for m
    by (simp add: example_world_def)
  from missing_destination_bucket[where env = env_without_bucket and w = example_world,
      OF parse_s3_event[of "''uploads''" "''photos/vacation.PNG''"] image_key_vacation nb(1)]
  have a: "lambda_handler example_world env_without_bucket
             (s3_event ''uploads'' ''photos/vacation.PNG'') =
     (Inl (KeyError (py_repr ''DESTINATION_BUCKET'')),
      vacation_calls
      @ [Publish ''arn:aws:sns:topic'' ''Image Processing Failed''
           (''Error processing image photos/vacation.PNG: '' @ py_repr ''DESTINATION_BUCKET'')])"
    using transform_vacation(1) by (simp add: sn topic pub error_msg_def)
  from missing_destination_bucket[where env = Map.empty and w = example_world,
      OF parse_s3_event[of "''uploads''" "''photos/vacation.PNG''"] image_key_vacation nb(2)]
  have b: "lambda_handler example_world Map.empty (s3_event ''uploads'' ''photos/vacation.PNG'') =
     (Inl (KeyError (py_repr ''DESTINATION_BUCKET'')), vacation_calls)"
    using transform_vacation(1) off by simp
  from a b show ?thesis
    by simp
qed

text \<open>
  The same event with a notifier that refuses the publish: the transform answers, the
  lookup raises \<open>KeyError\<close>, and the caller gets the notifier's \<open>AuthorizationError\<close>.
  So the lookup error is not propagated whenever the variable is unset.
\<close>

theorem lookup_error_masked_by_publish:
  "env_without_bucket ''DESTINATION_BUCKET'' = None
   \<and> lambda_handler sns_down_world env_without_bucket
        (s3_event ''uploads'' ''photos/vacation.PNG'') =
       (Inl (Error ''AuthorizationError''),
        vacation_calls
        @ [Publish ''arn:aws:sns:topic'' ''Image Processing Failed''
             (''Error processing image photos/vacation.PNG: '' @ py_repr ''DESTINATION_BUCKET'')])
   \<and> fst (lambda_handler sns_down_world env_without_bucket
            (s3_event ''uploads'' ''photos/vacation.PNG''))
       \<noteq> Inl (KeyError (py_repr ''DESTINATION_BUCKET''))"
proof -
  have nb: "env_without_bucket ''DESTINATION_BUCKET'' = None"
    by (simp add: env_without_bucket_def)
  have sn: "send_notifications env_without_bucket"
    by (simp add: send_notifications_examples)
  have topic: "env_without_bucket ''SNS_TOPIC_ARN'' = Some ''arn:aws:sns:topic''"
    by (simp add: env_without_bucket_def)
  have pub: "sns_publish sns_down_world ''arn:aws:sns:topic'' ''Image Processing Failed'' m =
             Inl (Error ''AuthorizationError'')" for m
    by (simp add: sns_down_world_def)
  have "lambda_handler sns_down_world env_without_bucket
        (s3_event ''uploads'' ''photos/vacation.PNG'') =
       (Inl (Error ''AuthorizationError''),
        vacation_calls
        @ [Publish ''arn:aws:sns:topic'' ''Image Processing Failed''
             (''Error processing image photos/vacation.PNG: '' @ py_repr ''DESTINATION_BUCKET'')])"
    by (simp add: handler_image[OF parse_s3_event image_key_vacation]
          process_no_bucket[where env = env_without_bucket, OF transform_vacation(2) nb] on_error_topic[OF sn topic] pub
          error_msg_def)
  with nb show ?thesis
    by simp
qed

subsection \<open>Upload before the success publish\<close>

text \<open>
  C10: in every invocation, a publish with the subject \<open>Image Processing Successful\<close>
  comes directly after an upload that answered, and no publish comes before it. And when
  the transform and the upload answer, notifications are enabled with a topic, and the
  success publish raises \<open>e\<close>, the calls are those of the transform, the upload, the
  success publish and one failure publish for \<open>e\<close>, and an exception reaches the
  caller (\<open>e\<close>, or that of the failure publish): the thumbnail is written and no
  result is returned.
\<close>

theorem upload_precedes_success_publish:
  "(snd (lambda_handler w env event) = t1 @ Publish tp ''Image Processing Successful'' m # t2
      \<longrightarrow> (\<exists>dst k d. t1 \<noteq> [] \<and> last t1 = PutObject dst k d ''image/jpeg'' ''STANDARD_IA''
             \<and> s3_put_object w dst k d ''image/jpeg'' ''STANDARD_IA'' = Inr ()
             \<and> filter is_publish t1 = []))
   \<and> (parse_event event = Inr (bucket, JStr key)
      \<and> endswith_any (lower key) image_extensions
      \<and> transform w bucket key = (Inr d, t)
      \<and> env ''DESTINATION_BUCKET'' = Some dst
      \<and> s3_put_object w dst (new_key key) d ''image/jpeg'' ''STANDARD_IA'' = Inr ()
      \<and> send_notifications env
      \<and> env ''SNS_TOPIC_ARN'' = Some topic
      \<and> sns_publish w topic ''Image Processing Successful'' (success_message key dst) = Inl e
      \<longrightarrow> lambda_handler w env event =
            ((case sns_publish w topic ''Image Processing Failed'' (error_msg key e) of
                Inl e' \<Rightarrow> Inl e' | Inr u \<Rightarrow> Inl e),
             t @ [PutObject dst (new_key key) d ''image/jpeg'' ''STANDARD_IA'',
                  Publish topic ''Image Processing Successful'' (success_message key dst),
                  Publish topic ''Image Processing Failed'' (error_msg key e)]))"
proof (intro conjI impI)
  assume "snd (lambda_handler w env event) =
            t1 @ Publish tp ''Image Processing Successful'' m # t2"
  then show "\<exists>dst k d. t1 \<noteq> [] \<and> last t1 = PutObject dst k d ''image/jpeg'' ''STANDARD_IA''
             \<and> s3_put_object w dst k d ''image/jpeg'' ''STANDARD_IA'' = Inr ()
             \<and> filter is_publish t1 = []"
    by (rule success_publish_after_put)
next
  assume a: "parse_event event = Inr (bucket, JStr key)
      \<and> endswith_any (lower key) image_extensions
      \<and> transform w bucket key = (Inr d, t)
      \<and> env ''DESTINATION_BUCKET'' = Some dst
      \<and> s3_put_object w dst (new_key key) d ''image/jpeg'' ''STANDARD_IA'' = Inr ()
      \<and> send_notifications env
      \<and> env ''SNS_TOPIC_ARN'' = Some topic
      \<and> sns_publish w topic ''Image Processing Successful'' (success_message key dst) = Inl e"
  then have h: "lambda_handler w env event =
                  try_except (process w env bucket key) (on_error w env key)"
    by (simp add: handler_image)
  from a have p: "process w env bucket key =
      (Inl e, t @ [PutObject dst (new_key key) d ''image/jpeg'' ''STANDARD_IA'',
                   Publish topic ''Image Processing Successful'' (success_message key dst)])"
    by (simp add: process_put_publish[where env = env and topic = topic and dst = dst])
  from a have "on_error w env key e =
           ((case sns_publish w topic ''Image Processing Failed'' (error_msg key e) of
               Inl e' \<Rightarrow> Inl e' | Inr u \<Rightarrow> Inl e),
            [Publish topic ''Image Processing Failed'' (error_msg key e)])"
    by (simp add: on_error_topic)
  with p show "lambda_handler w env event =
            ((case sns_publish w topic ''Image Processing Failed'' (error_msg key e) of
                Inl e' \<Rightarrow> Inl e' | Inr u \<Rightarrow> Inl e),
             t @ [PutObject dst (new_key key) d ''image/jpeg'' ''STANDARD_IA'',
                  Publish topic ''Image Processing Successful'' (success_message key dst),
                  Publish topic ''Image Processing Failed'' (error_msg key e)])"
    by (simp add: h)
qed

text \<open>A notifier that refuses the success publish and accepts the failure publish.\<close>

theorem upload_precedes_success_publish_witness:
  "lambda_handler success_topic_down_world notifying_env
     (s3_event ''uploads'' ''photos/vacation.PNG'') =
     (Inl (Error ''Throttled''),
      vacation_calls
      @ [PutObject ''thumbs'' ''thumbnails/photos/vacation.jpg'' ''JPEG:png-pixels''
           ''image/jpeg'' ''STANDARD_IA'',
         Publish ''arn:aws:sns:topic'' ''Image Processing Successful''
           ''Image photos/vacation.PNG was successfully processed and saved to thumbs/thumbnails/photos/vacation.jpg'',
         Publish ''arn:aws:sns:topic'' ''Image Processing Failed''
           ''Error processing image photos/vacation.PNG: Throttled''])
   \<and> (\<exists>dst k d.
         last (vacation_calls
               @ [PutObject ''thumbs'' ''thumbnails/photos/vacation.jpg'' ''JPEG:png-pixels''
                    ''image/jpeg'' ''STANDARD_IA'']) =
           PutObject dst k d ''image/jpeg'' ''STANDARD_IA''
         \<and> s3_put_object success_topic_down_world dst k d ''image/jpeg'' ''STANDARD_IA'' = Inr ()
         \<and> filter is_publish
             (vacation_calls
              @ [PutObject ''thumbs'' ''thumbnails/photos/vacation.jpg'' ''JPEG:png-pixels''
                   ''image/jpeg'' ''STANDARD_IA'']) = [])"
proof -
  have dst: "notifying_env ''DESTINATION_BUCKET'' = Some ''thumbs''"
    and topic: "notifying_env ''SNS_TOPIC_ARN'' = Some ''arn:aws:sns:topic''"
    by (simp_all add: notifying_env_def)
  have sn: "send_notifications notifying_env"
    by (simp add: send_notifications_examples)
  have put: "s3_put_object success_topic_down_world ''thumbs'' (new_key ''photos/vacation.PNG'')
               ''JPEG:png-pixels'' ''image/jpeg'' ''STANDARD_IA'' = Inr ()"
    by (simp add: example_defs)
  have pub: "sns_publish success_topic_down_world ''arn:aws:sns:topic''
               ''Image Processing Successful'' (success_message ''photos/vacation.PNG'' ''thumbs'') =
             Inl (Error ''Throttled'')"
    by (simp add: example_defs)
  have pubf: "sns_publish success_topic_down_world ''arn:aws:sns:topic''
               ''Image Processing Failed'' m = Inr ()" for m
    by (simp add: example_defs)
  from upload_precedes_success_publish[where w = success_topic_down_world
      and env = notifying_env and event = "s3_event ''uploads'' ''photos/vacation.PNG''"
      and bucket = "JStr ''uploads''" and key = "''photos/vacation.PNG''"
      and d = "''JPEG:png-pixels''" and t = vacation_calls and dst = "''thumbs''"
      and topic = "''arn:aws:sns:topic''" and e = "Error ''Throttled''"]
  have "lambda_handler success_topic_down_world notifying_env
          (s3_event ''uploads'' ''photos/vacation.PNG'') =
        ((case sns_publish success_topic_down_world ''arn:aws:sns:topic''
                ''Image Processing Failed''
                (error_msg ''photos/vacation.PNG'' (Error ''Throttled'')) of
            Inl e' \<Rightarrow> Inl e' | Inr u \<Rightarrow> Inl (Error ''Throttled'')),
         vacation_calls
         @ [PutObject ''thumbs'' (new_key ''photos/vacation.PNG'') ''JPEG:png-pixels''
              ''image/jpeg'' ''STANDARD_IA'',
            Publish ''arn:aws:sns:topic'' ''Image Processing Successful''
              (success_message ''photos/vacation.PNG'' ''thumbs''),
            Publish ''arn:aws:sns:topic'' ''Image Processing Failed''
              (error_msg ''photos/vacation.PNG'' (Error ''Throttled''))])"
    using parse_s3_event image_key_vacation transform_vacation(3) dst put sn topic pub
    by blast
  then have run: "lambda_handler success_topic_down_world notifying_env
     (s3_event ''uploads'' ''photos/vacation.PNG'') =
     (Inl (Error ''Throttled''),
      vacation_calls
      @ [PutObject ''thumbs'' ''thumbnails/photos/vacation.jpg'' ''JPEG:png-pixels''
           ''image/jpeg'' ''STANDARD_IA'',
         Publish ''arn:aws:sns:topic'' ''Image Processing Successful''
           ''Image photos/vacation.PNG was successfully processed and saved to thumbs/thumbnails/photos/vacation.jpg'',
         Publish ''arn:aws:sns:topic'' ''Image Processing Failed''
           ''Error processing image photos/vacation.PNG: Throttled''])"
    by (simp add: pubf new_key_vacation success_message_def error_msg_def)
  then have "snd (lambda_handler success_topic_down_world notifying_env
                    (s3_event ''uploads'' ''photos/vacation.PNG'')) =
      (vacation_calls
       @ [PutObject ''thumbs'' ''thumbnails/photos/vacation.jpg'' ''JPEG:png-pixels''
            ''image/jpeg'' ''STANDARD_IA''])
      @ Publish ''arn:aws:sns:topic'' ''Image Processing Successful''
          ''Image photos/vacation.PNG was successfully processed and saved to thumbs/thumbnails/photos/vacation.jpg''
        # [Publish ''arn:aws:sns:topic'' ''Image Processing Failed''
             ''Error processing image photos/vacation.PNG: Throttled'']"
    by simp
  with upload_precedes_success_publish[where w = success_topic_down_world
      and env = notifying_env and event = "s3_event ''uploads'' ''photos/vacation.PNG''"
      and ?t1.0 = "vacation_calls
       @ [PutObject ''thumbs'' ''thumbnails/photos/vacation.jpg'' ''JPEG:png-pixels''
            ''image/jpeg'' ''STANDARD_IA'']"
      and tp = "''arn:aws:sns:topic''"
      and m = "''Image photos/vacation.PNG was successfully processed and saved to thumbs/thumbnails/photos/vacation.jpg''"
      and ?t2.0 = "[Publish ''arn:aws:sns:topic'' ''Image Processing Failed''
             ''Error processing image photos/vacation.PNG: Throttled'']"]
  have "\<exists>dst k d.
         last (vacation_calls
               @ [PutObject ''thumbs'' ''thumbnails/photos/vacation.jpg'' ''JPEG:png-pixels''
                    ''image/jpeg'' ''STANDARD_IA'']) =
           PutObject dst k d ''image/jpeg'' ''STANDARD_IA''
         \<and> s3_put_object success_topic_down_world dst k d ''image/jpeg'' ''STANDARD_IA'' = Inr ()
         \<and> filter is_publish
             (vacation_calls
              @ [PutObject ''thumbs'' ''thumbnails/photos/vacation.jpg'' ''JPEG:png-pixels''
                   ''image/jpeg'' ''STANDARD_IA'']) = []"
    by blast
  with run show ?thesis
    by blast
qed

end
